theory Spec2Isabelle
  imports Main "HOL-Library.Word"
begin

section \<open>Outgoing batches of the gravity bridge keeper (keeper/batch.go)\<close>

text \<open>
  A shallow embedding of \<^verbatim>\<open>module/x/gravity/keeper/batch.go\<close>. Go's \<^verbatim>\<open>uint64\<close> is
  \<^typ>\<open>64 word\<close> (addition, subtraction and multiplication wrap, division is unsigned and
  panics on a zero divisor), \<^verbatim>\<open>sdk.Int\<close> is \<^typ>\<open>int\<close> with the overflow panic of its
  \<^verbatim>\<open>Add\<close> written out, Go's \<^verbatim>\<open>int\<close> counters and \<^verbatim>\<open>maxElements\<close> are \<^typ>\<open>int\<close>. A panic is the value \<open>Inl\<close> of a sum type; a panic
  aborts the enclosing transition, so no state is returned with it.
\<close>

subsection \<open>Data model\<close>

type_synonym uint64 = "64 word"

text \<open>
  \<^verbatim>\<open>common.Address\<close> is 20 bytes. The string fields that hold an address
  (\<^verbatim>\<open>BatchTx.TokenContract\<close>, \<^verbatim>\<open>ERC20Token.Contract\<close>) are written by the keeper with
  \<^verbatim>\<open>Address.Hex()\<close> only (line 43), so they are kept here in that canonical form, as the
  address they spell; \<open>Hex\<close> and \<open>HexToAddress\<close> are then inverse to each other.
\<close>

type_synonym address = "160 word"

definition Hex :: "address \<Rightarrow> address" where
  "Hex a = a"

definition HexToAddress :: "address \<Rightarrow> address" where
  "HexToAddress h = h"

record ERC20Token =
  Contract :: address
  Amount :: int

record SendToEthereum =
  Id_ste :: uint64
  Sender :: string
  EthereumRecipient :: string
  Erc20Token :: ERC20Token
  Erc20Fee :: ERC20Token

record BatchTx =
  Nonce :: uint64
  Timeout :: uint64
  Transactions :: "SendToEthereum list"
  TokenContract :: address
  Height :: uint64

record LatestEthereumBlockHeight =
  EthereumHeight :: uint64
  CosmosHeight :: uint64

record Params =
  AverageBlockTime :: uint64
  AverageEthereumBlockTime :: uint64
  TargetBatchTimeout :: uint64
  BridgeContractAddress :: string
  BridgeChainID :: uint64

text \<open>An emitted event: its type and the attributes that vary (contract, chain id, nonce).\<close>

record event =
  EventType :: string
  AttributeContract :: string
  AttributeBridgeChainID :: uint64
  AttributeNonce :: uint64

text \<open>
  The keeper's store together with the context of the running transition. The records under
  \<^verbatim>\<open>BatchTxPrefixByte\<close> and the unbatched pool are kept as lists in the order in which the
  store iterators visit them. A batch is stored under the key its own \<^verbatim>\<open>GetStoreIndex\<close>
  gives, so the key is not stored beside the value.
\<close>

record state =
  OutgoingBatches :: "BatchTx list"
  Unbatched :: "SendToEthereum list"
  LastOutgoingBatchNonce :: "uint64 option"
  LastObservedEthereumBlockHeight :: LatestEthereumBlockHeight
  params :: Params
  BlockHeight :: uint64
  Events :: "event list"

datatype error = NilPointerDereference | IntegerDivideByZero | IntOverflow

text \<open>
  \<^verbatim>\<open>sdk.Int.Add\<close> of the cosmos-sdk: the sum of two big integers, with the panic
  \<^verbatim>\<open>Int overflow\<close> when the bit length of the result exceeds \<^verbatim>\<open>maxBitLen\<close> (255 in the
  sdk's \<^verbatim>\<open>types/int.go\<close>), that is when its absolute value reaches \<open>2 ^ 255\<close>.
\<close>

definition maxBitLen :: nat where
  "maxBitLen = 255"

definition sdk_Int_Add :: "int \<Rightarrow> int \<Rightarrow> error + int" where
  "sdk_Int_Add a b = (if 2 ^ maxBitLen \<le> \<bar>a + b\<bar> then Inl IntOverflow else Inr (a + b))"

subsection \<open>Store access (keeper code outside batch.go)\<close>

type_synonym batch_key = "address \<times> uint64"

text \<open>Modelled from the spec: \<^verbatim>\<open>types.MakeBatchTxKey\<close>, the key of a batch record, the
  token contract address followed by the big-endian nonce (section 6), here the pair.\<close>

definition MakeBatchTxKey :: "address \<Rightarrow> uint64 \<Rightarrow> batch_key" where
  "MakeBatchTxKey tokenContract nonce = (tokenContract, nonce)"

text \<open>Modelled from the spec: \<^verbatim>\<open>BatchTx.GetStoreIndex\<close>, the identity key
  (token contract, nonce) of a batch (section 3, section 6 key layout).\<close>

definition GetStoreIndex :: "BatchTx \<Rightarrow> batch_key" where
  "GetStoreIndex btx = MakeBatchTxKey (HexToAddress (TokenContract btx)) (Nonce btx)"

text \<open>Modelled from the spec: \<^verbatim>\<open>BatchTx.GetFees\<close>, the total fee of a batch, the sum
  of the fee quantities of its member transfers.\<close>

definition GetFees :: "BatchTx \<Rightarrow> int" where
  "GetFees btx = sum_list (map (\<lambda>tx. Amount (Erc20Fee tx)) (Transactions btx))"

text \<open>Modelled from the spec: \<^verbatim>\<open>Keeper.GetOutgoingTx\<close>, the read of the record stored
  under a key; an absent key gives the nil interface, here \<open>None\<close>.\<close>

definition GetOutgoingTx :: "state \<Rightarrow> batch_key \<Rightarrow> BatchTx option" where
  "GetOutgoingTx s key = find (\<lambda>b. GetStoreIndex b = key) (OutgoingBatches s)"

text \<open>Modelled from the spec: \<^verbatim>\<open>Keeper.DeleteOutgoingTx\<close>, which removes the record
  under a key.\<close>

definition DeleteOutgoingTx :: "state \<Rightarrow> batch_key \<Rightarrow> state" where
  "DeleteOutgoingTx s key =
     s\<lparr>OutgoingBatches := filter (\<lambda>b. GetStoreIndex b \<noteq> key) (OutgoingBatches s)\<rparr>"

text \<open>The byte order of the batch keys: token contract first, then the big-endian nonce.\<close>

definition batch_key_less :: "batch_key \<Rightarrow> batch_key \<Rightarrow> bool" where
  "batch_key_less a b = (fst a < fst b \<or> (fst a = fst b \<and> snd a < snd b))"

fun insert_batch :: "BatchTx \<Rightarrow> BatchTx list \<Rightarrow> BatchTx list" where
  "insert_batch b [] = [b]"
| "insert_batch b (y # ys) =
     (if batch_key_less (GetStoreIndex y) (GetStoreIndex b) then b # y # ys
      else y # insert_batch b ys)"

text \<open>Modelled from the spec: \<^verbatim>\<open>Keeper.SetOutgoingTx\<close>, which stores the batch under its
  (token contract, nonce) key in the ordered key-value store, replacing a record already
  there. The iterator runs from the largest key down.\<close>

definition SetOutgoingTx :: "state \<Rightarrow> BatchTx \<Rightarrow> state" where
  "SetOutgoingTx s b =
     s\<lparr>OutgoingBatches :=
         insert_batch b (filter (\<lambda>y. GetStoreIndex y \<noteq> GetStoreIndex b) (OutgoingBatches s))\<rparr>"

text \<open>The pool key of a pending transfer: the fee (contract, then amount), then the id.\<close>

type_synonym pool_key = "uint64 \<times> ERC20Token"

definition ste_key :: "SendToEthereum \<Rightarrow> pool_key" where
  "ste_key ste = (Id_ste ste, Erc20Fee ste)"

definition pool_key_less :: "pool_key \<Rightarrow> pool_key \<Rightarrow> bool" where
  "pool_key_less a b =
     (Contract (snd a) < Contract (snd b)
      \<or> (Contract (snd a) = Contract (snd b)
          \<and> (Amount (snd a) < Amount (snd b)
              \<or> (Amount (snd a) = Amount (snd b) \<and> fst a < fst b))))"

fun insert_ste :: "SendToEthereum \<Rightarrow> SendToEthereum list \<Rightarrow> SendToEthereum list" where
  "insert_ste x [] = [x]"
| "insert_ste x (y # ys) =
     (if pool_key_less (ste_key y) (ste_key x) then x # y # ys else y # insert_ste x ys)"

text \<open>Modelled from the spec: \<^verbatim>\<open>Keeper.SetUnbatchedSendToEthereum\<close>, which puts a
  transfer into the unbatched pool indexed by its fee and id, replacing an entry with the same
  index; the pool is visited fee-descending.\<close>

definition SetUnbatchedSendToEthereum :: "state \<Rightarrow> SendToEthereum \<Rightarrow> state" where
  "SetUnbatchedSendToEthereum s ste =
     s\<lparr>Unbatched := insert_ste ste (filter (\<lambda>y. ste_key y \<noteq> ste_key ste) (Unbatched s))\<rparr>"

text \<open>Modelled from the spec: \<^verbatim>\<open>Keeper.DeleteUnbatchedSendToEthereum\<close>, which removes
  the pool entry indexed by the given id and fee.\<close>

definition DeleteUnbatchedSendToEthereum :: "state \<Rightarrow> uint64 \<Rightarrow> ERC20Token \<Rightarrow> state" where
  "DeleteUnbatchedSendToEthereum s ident fee =
     s\<lparr>Unbatched := filter (\<lambda>y. ste_key y \<noteq> (ident, fee)) (Unbatched s)\<rparr>"

text \<open>The read of the pool entry under an index; the statements below use it to say what
  the pool holds.\<close>

definition GetUnbatchedSendToEthereum :: "state \<Rightarrow> pool_key \<Rightarrow> SendToEthereum option" where
  "GetUnbatchedSendToEthereum s key = find (\<lambda>y. ste_key y = key) (Unbatched s)"

text \<open>
  The store iterators call a visitor on each record until it returns true. The records are
  those present when the iteration starts, in store order; the visitor works on the closure
  variables and the store (\<open>'st\<close>). \<open>iterate\<close> is for a visitor that cannot panic,
  \<open>iterate_panic\<close> for one that can.
\<close>

fun iterate :: "('a \<Rightarrow> 'st \<Rightarrow> bool \<times> 'st) \<Rightarrow> 'a list \<Rightarrow> 'st \<Rightarrow> 'st" where
  "iterate cb [] st = st"
| "iterate cb (x # xs) st =
     (case cb x st of (stop, st') \<Rightarrow> if stop then st' else iterate cb xs st')"

fun iterate_panic ::
  "('a \<Rightarrow> 'st \<Rightarrow> error + bool \<times> 'st) \<Rightarrow> 'a list \<Rightarrow> 'st \<Rightarrow> error + 'st" where
  "iterate_panic cb [] st = Inr st"
| "iterate_panic cb (x # xs) st =
     (case cb x st of
        Inl e \<Rightarrow> Inl e
      | Inr (stop, st') \<Rightarrow> if stop then Inr st' else iterate_panic cb xs st')"

text \<open>Modelled from the spec: the records \<^verbatim>\<open>IterateUnbatchedSendToEthereumsByContract\<close>
  visits, the pool entries indexed under the token contract, in pool order.\<close>

definition UnbatchedSendToEthereumsByContract :: "state \<Rightarrow> address \<Rightarrow> SendToEthereum list" where
  "UnbatchedSendToEthereumsByContract s contractAddress =
     filter (\<lambda>ste. HexToAddress (Contract (Erc20Fee ste)) = contractAddress) (Unbatched s)"

text \<open>\<^verbatim>\<open>ctx.EventManager().EmitEvent\<close> with the attributes of lines 48-55 and 125-134:
  the event is appended to the events of the transition.\<close>

definition EmitEvent :: "state \<Rightarrow> string \<Rightarrow> uint64 \<Rightarrow> state" where
  "EmitEvent s ty nonce =
     s\<lparr>Events := Events s @
         [\<lparr>EventType = ty, AttributeContract = BridgeContractAddress (params s),
           AttributeBridgeChainID = BridgeChainID (params s), AttributeNonce = nonce\<rparr>]\<rparr>"

subsection \<open>batch.go\<close>

text \<open>\<^verbatim>\<open>IncrementLastOutgoingBatchNonce\<close> (lines 182-193).\<close>

definition IncrementLastOutgoingBatchNonce :: "state \<Rightarrow> uint64 \<times> state" where
  "IncrementLastOutgoingBatchNonce s =
     (let ident = (case LastOutgoingBatchNonce s of None \<Rightarrow> 0 | Some bz \<Rightarrow> bz);
          newId = ident + 1
      in (newId, s\<lparr>LastOutgoingBatchNonce := Some newId\<rparr>))"

text \<open>\<open>n\<close> calls of \<^verbatim>\<open>IncrementLastOutgoingBatchNonce\<close> in a row: the values they return,
  in order, and the final state.\<close>

fun IncrementLastOutgoingBatchNonce_calls :: "nat \<Rightarrow> state \<Rightarrow> uint64 list \<times> state" where
  "IncrementLastOutgoingBatchNonce_calls 0 s = ([], s)"
| "IncrementLastOutgoingBatchNonce_calls (Suc n) s =
     (case IncrementLastOutgoingBatchNonce s of
        (v, s') \<Rightarrow> (case IncrementLastOutgoingBatchNonce_calls n s' of
                      (vs, s'') \<Rightarrow> (v # vs, s'')))"

text \<open>\<^verbatim>\<open>getBatchTimeoutHeight\<close> (lines 61-78). It only reads; the division of line 73
  panics on a zero \<^verbatim>\<open>AverageEthereumBlockTime\<close>.\<close>

definition getBatchTimeoutHeight :: "state \<Rightarrow> error + uint64" where
  "getBatchTimeoutHeight s =
     (let p = params s;
          currentCosmosHeight = BlockHeight s;
          heights = LastObservedEthereumBlockHeight s
      in if CosmosHeight heights = 0 \<or> EthereumHeight heights = 0 then Inr 0
         else
           let projectedMillis = (currentCosmosHeight - CosmosHeight heights) * AverageBlockTime p
           in if AverageEthereumBlockTime p = 0 then Inl IntegerDivideByZero
              else
                let projectedCurrentEthereumHeight =
                      projectedMillis div AverageEthereumBlockTime p + EthereumHeight heights;
                    blocksToAdd = TargetBatchTimeout p div AverageEthereumBlockTime p
                in Inr (projectedCurrentEthereumHeight + blocksToAdd))"

text \<open>\<^verbatim>\<open>GetBatchFeesByTokenType\<close> (lines 100-110). The addition of line 104 is
  \<^verbatim>\<open>sdk.Int.Add\<close> and panics on overflow.\<close>

definition GetBatchFeesByTokenType :: "state \<Rightarrow> address \<Rightarrow> int \<Rightarrow> error + int" where
  "GetBatchFeesByTokenType s tokenContractAddr maxElements =
     (case iterate_panic
             (\<lambda>tx (feeAmount, i).
                case sdk_Int_Add feeAmount (Amount (Erc20Fee tx)) of
                  Inl e \<Rightarrow> Inl e
                | Inr feeAmount' \<Rightarrow> Inr (i + 1 = maxElements, (feeAmount', i + 1)))
             (UnbatchedSendToEthereumsByContract s tokenContractAddr)
             (0, 0 :: int) of
        Inl e \<Rightarrow> Inl e
      | Inr (feeAmount, i) \<Rightarrow> Inr feeAmount)"

text \<open>\<^verbatim>\<open>GetLastOutgoingBatchByTokenType\<close> (lines 138-150).\<close>

definition GetLastOutgoingBatchByTokenType :: "state \<Rightarrow> address \<Rightarrow> BatchTx option" where
  "GetLastOutgoingBatchByTokenType s token =
     fst (iterate
            (\<lambda>btx (lastBatch, lastNonce).
               if HexToAddress (TokenContract btx) = token \<and> Nonce btx > lastNonce
               then (False, (Some btx, Nonce btx))
               else (False, (lastBatch, lastNonce)))
            (OutgoingBatches s)
            (None, 0))"

text \<open>\<^verbatim>\<open>CancelBatchTx\<close> (lines 113-135). The type assertion of line 115 gives a nil
  pointer for an absent record, and line 118 dereferences it.\<close>

definition CancelBatchTx :: "state \<Rightarrow> address \<Rightarrow> uint64 \<Rightarrow> error + state" where
  "CancelBatchTx s tokenContract nonce =
     (case GetOutgoingTx s (MakeBatchTxKey tokenContract nonce) of
        None \<Rightarrow> Inl NilPointerDereference
      | Some batch \<Rightarrow>
          let s1 = foldl SetUnbatchedSendToEthereum s (Transactions batch);
              s2 = DeleteOutgoingTx s1 (GetStoreIndex batch)
          in Inr (EmitEvent s2 ''outgoing_batch_canceled'' nonce))"

text \<open>\<^verbatim>\<open>BatchTxExecuted\<close> (lines 82-94). \<^verbatim>\<open>batchTx\<close> is nil when no record is stored
  under the key; line 88 then dereferences it at the first record visited, line 93 when
  there is none.\<close>

definition BatchTxExecuted :: "state \<Rightarrow> address \<Rightarrow> uint64 \<Rightarrow> error + state" where
  "BatchTxExecuted s tokenContract nonce =
     (let batchTx = GetOutgoingTx s (MakeBatchTxKey tokenContract nonce)
      in case iterate_panic
                (\<lambda>btx st.
                   case batchTx of
                     None \<Rightarrow> Inl NilPointerDereference
                   | Some b \<Rightarrow>
                       if Nonce btx < Nonce b \<and> TokenContract b = Hex tokenContract
                       then (case CancelBatchTx st tokenContract (Nonce btx) of
                               Inl e \<Rightarrow> Inl e
                             | Inr st' \<Rightarrow> Inr (False, st'))
                       else Inr (False, st))
                (OutgoingBatches s) s of
           Inl e \<Rightarrow> Inl e
         | Inr s1 \<Rightarrow>
             (case batchTx of
                None \<Rightarrow> Inl NilPointerDereference
              | Some b \<Rightarrow> Inr (DeleteOutgoingTx s1 (GetStoreIndex b))))"

text \<open>The selection loop of \<^verbatim>\<open>BuildBatchTx\<close> (lines 32-37): the selected transfers and
  the store after their removal from the pool.\<close>

definition selectStes :: "state \<Rightarrow> address \<Rightarrow> int \<Rightarrow> SendToEthereum list \<times> state" where
  "selectStes s contractAddress maxElements =
     iterate
       (\<lambda>ste (selectedStes, st).
          let selectedStes' = selectedStes @ [ste];
              st' = DeleteUnbatchedSendToEthereum st (Id_ste ste) (Erc20Fee ste)
          in (int (length selectedStes') = maxElements, (selectedStes', st')))
       (UnbatchedSendToEthereumsByContract s contractAddress)
       ([], s)"

text \<open>\<^verbatim>\<open>BuildBatchTx\<close> (lines 24-58). The guard of lines 26-30 calls
  \<^verbatim>\<open>GetBatchFeesByTokenType\<close> only when a batch of the token is outstanding, and a panic
  of that call is a panic of \<^verbatim>\<open>BuildBatchTx\<close>. The fields of the batch are evaluated in
  the order written: the nonce is allocated before the timeout is computed.\<close>

definition BuildBatchTx :: "state \<Rightarrow> address \<Rightarrow> int \<Rightarrow> error + BatchTx option \<times> state" where
  "BuildBatchTx s contractAddress maxElements =
     (case (case GetLastOutgoingBatchByTokenType s contractAddress of
              None \<Rightarrow> Inr False
            | Some lastBatch \<Rightarrow>
                (case GetBatchFeesByTokenType s contractAddress maxElements of
                   Inl e \<Rightarrow> Inl e
                 | Inr fees \<Rightarrow> Inr (GetFees lastBatch \<ge> fees))) of
        Inl e \<Rightarrow> Inl e
      | Inr moreProfitable \<Rightarrow>
          if moreProfitable then Inr (None, s)
          else
            case selectStes s contractAddress maxElements of
              (selectedStes, s1) \<Rightarrow>
                (case IncrementLastOutgoingBatchNonce s1 of
                   (nonce, s2) \<Rightarrow>
                     (case getBatchTimeoutHeight s2 of
                        Inl e \<Rightarrow> Inl e
                      | Inr timeout \<Rightarrow>
                          let batch = \<lparr>Nonce = nonce, Timeout = timeout,
                                       Transactions = selectedStes,
                                       TokenContract = Hex contractAddress,
                                       Height = BlockHeight s2\<rparr>;
                              s3 = SetOutgoingTx s2 batch
                          in Inr (Some batch, EmitEvent s3 ''outgoing_batch'' (Nonce batch)))))"


subsection \<open>Auxiliary definitions for the statements\<close>

text \<open>The records a visitor sees when it stops as the two loops over the pool do: after
  the visit that brings the count \<open>c\<close> to \<open>n\<close>, or at the end of the list.\<close>

fun upto_stop :: "int \<Rightarrow> int \<Rightarrow> 'a list \<Rightarrow> 'a list" where
  "upto_stop c n [] = []"
| "upto_stop c n (x # xs) = x # (if c + 1 = n then [] else upto_stop (c + 1) n xs)"

text \<open>The fees of a list of transfers added up in order with \<^verbatim>\<open>sdk.Int.Add\<close>, from a
  starting amount: the sum, or the panic of the first addition that overflows.\<close>

fun sum_fees :: "int \<Rightarrow> SendToEthereum list \<Rightarrow> error + int" where
  "sum_fees acc [] = Inr acc"
| "sum_fees acc (tx # txs) =
     (case sdk_Int_Add acc (Amount (Erc20Fee tx)) of
        Inl e \<Rightarrow> Inl e
      | Inr acc' \<Rightarrow> sum_fees acc' txs)"

text \<open>The pool in the order of its index: from the largest (fee contract, fee amount, id)
  down, no index twice. Within a token this is fee-descending.\<close>

definition pool_sorted :: "SendToEthereum list \<Rightarrow> bool" where
  "pool_sorted l = sorted_wrt (\<lambda>a b. pool_key_less (ste_key b) (ste_key a)) l"

text \<open>The persisted counter as \<^verbatim>\<open>IncrementLastOutgoingBatchNonce\<close> reads it: 0 when the
  key is absent.\<close>

definition counter :: "state \<Rightarrow> uint64" where
  "counter s = (case LastOutgoingBatchNonce s of None \<Rightarrow> 0 | Some bz \<Rightarrow> bz)"

text \<open>The timeout projection in the words of the specification (section 4.3, steps 2 to 6),
  over the unbounded integers with floor division.\<close>

definition ProjectTimeout_spec :: "int \<Rightarrow> int \<Rightarrow> int \<Rightarrow> int \<Rightarrow> int \<Rightarrow> int \<Rightarrow> int" where
  "ProjectTimeout_spec currentHomeHeight observedHomeHeight observedForeignHeight
       averageHomeBlockTimeMs averageForeignBlockTimeMs targetTimeoutMs =
     (let elapsed = currentHomeHeight - observedHomeHeight;
          projectedMillis = elapsed * averageHomeBlockTimeMs;
          projectedForeignHeight =
            observedForeignHeight + projectedMillis div averageForeignBlockTimeMs;
          blocksToAdd = targetTimeoutMs div averageForeignBlockTimeMs
      in projectedForeignHeight + blocksToAdd)"

subsection \<open>Concrete states\<close>

definition tokenA :: address where
  "tokenA = 10"

definition tokenB :: address where
  "tokenB = 11"

definition mk_transfer :: "uint64 \<Rightarrow> address \<Rightarrow> int \<Rightarrow> int \<Rightarrow> SendToEthereum" where
  "mk_transfer ident token amount fee =
     \<lparr>Id_ste = ident, Sender = ''cosmos1sender'', EthereumRecipient = ''0xRecipient'',
      Erc20Token = \<lparr>Contract = token, Amount = amount\<rparr>,
      Erc20Fee = \<lparr>Contract = token, Amount = fee\<rparr>\<rparr>"

text \<open>The setting of the specification's example for the timeout: block times 5000 ms and
  15000 ms, target 12 h, observed pair (100, 1000), current height 160; nothing stored.\<close>

definition example_state :: state where
  "example_state =
     \<lparr>OutgoingBatches = [], Unbatched = [], LastOutgoingBatchNonce = None,
      LastObservedEthereumBlockHeight = \<lparr>EthereumHeight = 1000, CosmosHeight = 100\<rparr>,
      params = \<lparr>AverageBlockTime = 5000, AverageEthereumBlockTime = 15000,
                TargetBatchTimeout = 43200000, BridgeContractAddress = ''0xBridge'',
                BridgeChainID = 1\<rparr>,
      BlockHeight = 160, Events = []\<rparr>"

text \<open>Current height 50, below the observed home height 100.\<close>

definition earlier_height_state :: state where
  "earlier_height_state = example_state\<lparr>BlockHeight := 50\<rparr>"

text \<open>No height observed yet: the sentinel pair (0, 0).\<close>

definition never_observed_state :: state where
  "never_observed_state =
     example_state\<lparr>LastObservedEthereumBlockHeight := \<lparr>EthereumHeight = 0, CosmosHeight = 0\<rparr>\<rparr>"

text \<open>Three pending transfers of token A with fees 10, 7 and 3, and one of token B.\<close>

definition pool_state :: state where
  "pool_state =
     example_state\<lparr>Unbatched :=
       [mk_transfer 4 tokenB 60 9, mk_transfer 1 tokenA 100 10, mk_transfer 2 tokenA 100 7,
        mk_transfer 3 tokenA 100 3]\<rparr>"

text \<open>The same pool with a zero average Ethereum block time in the parameters.\<close>

definition pool_zero_block_time_state :: state where
  "pool_zero_block_time_state =
     pool_state\<lparr>params := (params pool_state)\<lparr>AverageEthereumBlockTime := 0\<rparr>\<rparr>"

text \<open>An empty pool and a zero average Ethereum block time.\<close>

definition empty_zero_block_time_state :: state where
  "empty_zero_block_time_state =
     example_state\<lparr>params := (params example_state)\<lparr>AverageEthereumBlockTime := 0\<rparr>\<rparr>"

text \<open>Batches 1 and 3 of token A and batch 2 of token B.\<close>

definition three_batch_state :: state where
  "three_batch_state =
     example_state\<lparr>OutgoingBatches :=
           [\<lparr>Nonce = 2, Timeout = 3900, Transactions = [mk_transfer 2 tokenB 50 4],
             TokenContract = tokenB, Height = 152\<rparr>,
            \<lparr>Nonce = 3, Timeout = 3900, Transactions = [mk_transfer 3 tokenA 70 5],
             TokenContract = tokenA, Height = 155\<rparr>,
            \<lparr>Nonce = 1, Timeout = 3900, Transactions = [mk_transfer 1 tokenA 20 1],
             TokenContract = tokenA, Height = 150\<rparr>],
         LastOutgoingBatchNonce := Some 3\<rparr>"

text \<open>Batches 1 and 3 of token A only.\<close>

definition one_token_state :: state where
  "one_token_state =
     example_state\<lparr>OutgoingBatches :=
           [\<lparr>Nonce = 3, Timeout = 3900, Transactions = [mk_transfer 3 tokenA 70 5],
             TokenContract = tokenA, Height = 155\<rparr>,
            \<lparr>Nonce = 1, Timeout = 3900, Transactions = [mk_transfer 1 tokenA 20 1],
             TokenContract = tokenA, Height = 150\<rparr>],
         LastOutgoingBatchNonce := Some 3\<rparr>"

text \<open>The state \<open>pool_state\<close> after a batch of token B has been built, and then after a
  batch of at most two transfers of token A has been built as well.\<close>

definition built_B_state :: state where
  "built_B_state =
     pool_state\<lparr>OutgoingBatches :=
           [\<lparr>Nonce = 1, Timeout = 3900, Transactions = [mk_transfer 4 tokenB 60 9],
             TokenContract = tokenB, Height = 160\<rparr>],
         Unbatched :=
           [mk_transfer 1 tokenA 100 10, mk_transfer 2 tokenA 100 7, mk_transfer 3 tokenA 100 3],
         LastOutgoingBatchNonce := Some 1,
         Events :=
           [\<lparr>EventType = ''outgoing_batch'', AttributeContract = ''0xBridge'',
             AttributeBridgeChainID = 1, AttributeNonce = 1\<rparr>]\<rparr>"

definition built_AB_state :: state where
  "built_AB_state =
     built_B_state\<lparr>OutgoingBatches :=
           [\<lparr>Nonce = 1, Timeout = 3900, Transactions = [mk_transfer 4 tokenB 60 9],
             TokenContract = tokenB, Height = 160\<rparr>,
            \<lparr>Nonce = 2, Timeout = 3900,
             Transactions = [mk_transfer 1 tokenA 100 10, mk_transfer 2 tokenA 100 7],
             TokenContract = tokenA, Height = 160\<rparr>],
         Unbatched := [mk_transfer 3 tokenA 100 3],
         LastOutgoingBatchNonce := Some 2,
         Events :=
           [\<lparr>EventType = ''outgoing_batch'', AttributeContract = ''0xBridge'',
             AttributeBridgeChainID = 1, AttributeNonce = 1\<rparr>,
            \<lparr>EventType = ''outgoing_batch'', AttributeContract = ''0xBridge'',
             AttributeBridgeChainID = 1, AttributeNonce = 2\<rparr>]\<rparr>"

text \<open>Batch 1 of token A outstanding, and four pending transfers of token A with a fee of
  \<open>2 ^ 254\<close> each.\<close>

definition huge_fees_state :: state where
  "huge_fees_state =
     example_state\<lparr>OutgoingBatches :=
           [\<lparr>Nonce = 1, Timeout = 3900, Transactions = [mk_transfer 1 tokenA 70 5],
             TokenContract = tokenA, Height = 150\<rparr>],
         Unbatched :=
           [mk_transfer 5 tokenA 100 (2 ^ 254), mk_transfer 4 tokenA 100 (2 ^ 254),
            mk_transfer 3 tokenA 100 (2 ^ 254), mk_transfer 2 tokenA 100 (2 ^ 254)],
         LastOutgoingBatchNonce := Some 1\<rparr>"

text \<open>Batch 2 of token A with two members (fees 10 and 7), and a pool that holds transfers
  of token A with fees 50 and 3.\<close>

definition cancel_state :: state where
  "cancel_state =
     example_state\<lparr>OutgoingBatches :=
           [\<lparr>Nonce = 2, Timeout = 3900,
             Transactions = [mk_transfer 1 tokenA 100 10, mk_transfer 2 tokenA 100 7],
             TokenContract = tokenA, Height = 155\<rparr>],
         Unbatched := [mk_transfer 9 tokenA 500 50, mk_transfer 3 tokenA 100 3],
         LastOutgoingBatchNonce := Some 2\<rparr>"

text \<open>A single outstanding batch of token A, stored with nonce 0.\<close>

definition nonce_zero_state :: state where
  "nonce_zero_state =
     example_state\<lparr>OutgoingBatches :=
           [\<lparr>Nonce = 0, Timeout = 3900, Transactions = [mk_transfer 1 tokenA 70 5],
             TokenContract = tokenA, Height = 155\<rparr>]\<rparr>"


section \<open>Properties\<close>

subsection \<open>The nonce counter\<close>

lemma Increment_fst: "fst (IncrementLastOutgoingBatchNonce s) = counter s + 1"
  by (simp add: IncrementLastOutgoingBatchNonce_def counter_def Let_def)

lemma Increment_counter: "counter (snd (IncrementLastOutgoingBatchNonce s)) = counter s + 1"
  by (simp add: IncrementLastOutgoingBatchNonce_def counter_def Let_def)

lemma Increment_persisted:
  "LastOutgoingBatchNonce (snd (IncrementLastOutgoingBatchNonce s))
     = Some (fst (IncrementLastOutgoingBatchNonce s))"
  by (simp add: IncrementLastOutgoingBatchNonce_def Let_def)

lemma calls_values_from_0:
  "fst (IncrementLastOutgoingBatchNonce_calls n s)
     = map (\<lambda>i. counter s + of_nat (Suc i)) [0..<n]"
proof (induction n arbitrary: s)
  case 0
  then show ?case by simp
next
  case (Suc n)
  have "fst (IncrementLastOutgoingBatchNonce_calls (Suc n) s)
        = fst (IncrementLastOutgoingBatchNonce s)
          # fst (IncrementLastOutgoingBatchNonce_calls n (snd (IncrementLastOutgoingBatchNonce s)))"
    by (simp add: split_beta)
  also have "\<dots> = (counter s + 1) # map (\<lambda>i. counter s + 1 + of_nat (Suc i)) [0..<n]"
    by (simp only: Suc.IH Increment_fst Increment_counter)
  also have "\<dots> = map (\<lambda>i. counter s + of_nat (Suc i)) (0 # map Suc [0..<n])"
    by (simp add: add.assoc add.commute)
  also have "0 # map Suc [0..<n] = [0..<Suc n]"
    by (simp only: map_Suc_upt upt_conv_Cons [OF zero_less_Suc])
  finally show ?case .
qed

lemma calls_values:
  "fst (IncrementLastOutgoingBatchNonce_calls n s)
     = map (\<lambda>i. counter s + of_nat i) [1..<Suc n]"
proof -
  have "map (\<lambda>i. counter s + of_nat (Suc i)) [0..<n]
        = map (\<lambda>i. counter s + of_nat i) (map Suc [0..<n])"
    by simp
  also have "map Suc [0..<n] = [1..<Suc n]"
    by (simp only: map_Suc_upt One_nat_def)
  finally show ?thesis by (simp only: calls_values_from_0)
qed

lemma calls_counter:
  "LastOutgoingBatchNonce (snd (IncrementLastOutgoingBatchNonce_calls n s))
     = (if n = 0 then LastOutgoingBatchNonce s else Some (counter s + of_nat n))"
proof (induction n arbitrary: s)
  case 0
  then show ?case by simp
next
  case (Suc n)
  have l: "LastOutgoingBatchNonce (snd (IncrementLastOutgoingBatchNonce s)) = Some (counter s + 1)"
    by (simp add: Increment_persisted Increment_fst)
  have "snd (IncrementLastOutgoingBatchNonce_calls (Suc n) s)
        = snd (IncrementLastOutgoingBatchNonce_calls n (snd (IncrementLastOutgoingBatchNonce s)))"
    by (simp add: split_beta)
  then show ?case by (simp add: Suc.IH Increment_counter l add.assoc)
qed

lemma calls_nth:
  assumes "i < n"
  shows "fst (IncrementLastOutgoingBatchNonce_calls n s) ! i = counter s + of_nat (Suc i)"
  using assms by (simp add: calls_values_from_0 del: upt_Suc)

text \<open>
  Claim C4, as amended. Starting from a state where the counter key is absent, a sequence of
  fewer than \<open>2 ^ 64\<close> calls of \<^verbatim>\<open>IncrementLastOutgoingBatchNonce\<close> returns 1, 2, 3, ...,
  \<open>n\<close> in this order (so strictly increasing, without repeats and without gaps), the counter
  holds the last value returned, and every single call, in any state, persists the value it
  returns.
\<close>

theorem IncrementLastOutgoingBatchNonce_sequence:
  assumes "LastOutgoingBatchNonce s = None" and "n < 2 ^ 64"
  shows "map unat (fst (IncrementLastOutgoingBatchNonce_calls n s)) = [1..<Suc n]
       \<and> (0 < n \<longrightarrow>
            LastOutgoingBatchNonce (snd (IncrementLastOutgoingBatchNonce_calls n s))
              = Some (of_nat n))
       \<and> LastOutgoingBatchNonce (snd (IncrementLastOutgoingBatchNonce t))
            = Some (fst (IncrementLastOutgoingBatchNonce t))"
proof -
  have c: "counter s = 0" using assms(1) by (simp add: counter_def)
  have "map unat (fst (IncrementLastOutgoingBatchNonce_calls n s))
        = map (\<lambda>i. unat (of_nat i :: uint64)) [1..<Suc n]"
    by (simp add: calls_values c del: upt_Suc)
  also have "\<dots> = map (\<lambda>i. i) [1..<Suc n]"
  proof (rule map_cong [OF refl])
    fix i assume "i \<in> set [1..<Suc n]"
    then have "i < 2 ^ 64" using assms(2) by auto
    then show "unat (of_nat i :: uint64) = i" by (simp add: unat_of_nat)
  qed
  finally have a: "map unat (fst (IncrementLastOutgoingBatchNonce_calls n s)) = [1..<Suc n]"
    by simp
  have b: "0 < n \<longrightarrow>
            LastOutgoingBatchNonce (snd (IncrementLastOutgoingBatchNonce_calls n s))
              = Some (of_nat n)"
    by (simp add: calls_counter c)
  show ?thesis using a b Increment_persisted by blast
qed

theorem IncrementLastOutgoingBatchNonce_sequence_witness:
  "LastOutgoingBatchNonce example_state = None \<and> (3 :: nat) < 2 ^ 64
   \<and> map unat (fst (IncrementLastOutgoingBatchNonce_calls 3 example_state)) = [1, 2, 3]
   \<and> LastOutgoingBatchNonce (snd (IncrementLastOutgoingBatchNonce_calls 3 example_state))
        = Some 3"
proof -
  have h1: "LastOutgoingBatchNonce example_state = None" by (simp add: example_state_def)
  have h2: "(3 :: nat) < 2 ^ 64" by simp
  have u: "[1..<Suc 3] = [1, 2, 3]" by (simp add: upt_rec)
  show ?thesis
    using IncrementLastOutgoingBatchNonce_sequence [OF h1 h2, of example_state] h1 u by simp
qed

text \<open>
  Claim C4 as stated fails at the wrap-around of \<^verbatim>\<open>uint64\<close>: in the sequence of
  \<open>2 ^ 64\<close> calls from the absent counter, the last call returns 0, which is neither one more
  than \<open>2 ^ 64 - 1\<close>, the value before it, nor a new value.
\<close>

theorem IncrementLastOutgoingBatchNonce_wraps:
  "fst (IncrementLastOutgoingBatchNonce_calls (2 ^ 64) example_state) ! (2 ^ 64 - 1) = 0
   \<and> fst (IncrementLastOutgoingBatchNonce_calls (2 ^ 64) example_state) ! (2 ^ 64 - 2)
       = 18446744073709551615"
proof -
  have c: "counter example_state = 0" by (simp add: counter_def example_state_def)
  have "(2 ^ 64 - 1 :: nat) < 2 ^ 64" by simp
  then have "fst (IncrementLastOutgoingBatchNonce_calls (2 ^ 64) example_state) ! (2 ^ 64 - 1)
     = counter example_state + of_nat (Suc (2 ^ 64 - 1))" by (rule calls_nth)
  also have "Suc (2 ^ 64 - 1) = (2 ^ 64 :: nat)" by simp
  finally have a: "fst (IncrementLastOutgoingBatchNonce_calls (2 ^ 64) example_state) ! (2 ^ 64 - 1) = 0"
    using c by simp
  have "(2 ^ 64 - 2 :: nat) < 2 ^ 64" by simp
  then have "fst (IncrementLastOutgoingBatchNonce_calls (2 ^ 64) example_state) ! (2 ^ 64 - 2)
     = counter example_state + of_nat (Suc (2 ^ 64 - 2))" by (rule calls_nth)
  also have "Suc (2 ^ 64 - 2) = (2 ^ 64 - 1 :: nat)" by simp
  finally have b: "fst (IncrementLastOutgoingBatchNonce_calls (2 ^ 64) example_state) ! (2 ^ 64 - 2)
       = 18446744073709551615"
    using c by simp
  show ?thesis using a b by simp
qed

subsection \<open>The timeout projection\<close>

lemma getBatchTimeoutHeight_returns:
  assumes "AverageEthereumBlockTime (params s) \<noteq> 0
         \<or> CosmosHeight (LastObservedEthereumBlockHeight s) = 0
         \<or> EthereumHeight (LastObservedEthereumBlockHeight s) = 0"
  shows "\<exists>timeout. getBatchTimeoutHeight s = Inr timeout"
  using assms by (auto simp: getBatchTimeoutHeight_def Let_def)

text \<open>
  Claim C6. Whenever either component of the last observed pair is 0,
  \<^verbatim>\<open>getBatchTimeoutHeight\<close> returns 0, whatever the current height (and the parameters)
  are. The function reads the state and returns a height only: it has no state to modify.
\<close>

theorem getBatchTimeoutHeight_zero_sentinel:
  assumes "CosmosHeight (LastObservedEthereumBlockHeight s) = 0
         \<or> EthereumHeight (LastObservedEthereumBlockHeight s) = 0"
  shows "getBatchTimeoutHeight (s\<lparr>BlockHeight := currentCosmosHeight\<rparr>) = Inr 0"
  using assms by (simp add: getBatchTimeoutHeight_def Let_def)

theorem getBatchTimeoutHeight_zero_sentinel_witness:
  "(CosmosHeight (LastObservedEthereumBlockHeight never_observed_state) = 0
    \<or> EthereumHeight (LastObservedEthereumBlockHeight never_observed_state) = 0)
   \<and> getBatchTimeoutHeight (never_observed_state\<lparr>BlockHeight := 160\<rparr>) = Inr 0"
proof -
  have h: "CosmosHeight (LastObservedEthereumBlockHeight never_observed_state) = 0
    \<or> EthereumHeight (LastObservedEthereumBlockHeight never_observed_state) = 0"
    by (simp add: never_observed_state_def example_state_def)
  show ?thesis using getBatchTimeoutHeight_zero_sentinel [OF h, of 160] h by simp
qed

text \<open>
  Claim C3, as amended. When both observed heights are nonzero, the average Ethereum block
  time is nonzero, the current height is not below the observed home height and neither the
  projected milliseconds nor the final sum exceeds \<open>2 ^ 64 - 1\<close>, then
  \<^verbatim>\<open>getBatchTimeoutHeight\<close> returns the value of the specification's formula over the
  integers. In the specification's example the result is 3900.
\<close>

theorem getBatchTimeoutHeight_projection:
  assumes nz: "CosmosHeight (LastObservedEthereumBlockHeight s) \<noteq> 0"
              "EthereumHeight (LastObservedEthereumBlockHeight s) \<noteq> 0"
    and d: "AverageEthereumBlockTime (params s) \<noteq> 0"
    and le: "CosmosHeight (LastObservedEthereumBlockHeight s) \<le> BlockHeight s"
    and m: "(uint (BlockHeight s) - uint (CosmosHeight (LastObservedEthereumBlockHeight s)))
              * uint (AverageBlockTime (params s)) < 2 ^ 64"
    and r: "ProjectTimeout_spec (uint (BlockHeight s))
              (uint (CosmosHeight (LastObservedEthereumBlockHeight s)))
              (uint (EthereumHeight (LastObservedEthereumBlockHeight s)))
              (uint (AverageBlockTime (params s))) (uint (AverageEthereumBlockTime (params s)))
              (uint (TargetBatchTimeout (params s))) < 2 ^ 64"
  shows "(\<exists>v. getBatchTimeoutHeight s = Inr v
            \<and> uint v = ProjectTimeout_spec (uint (BlockHeight s))
                (uint (CosmosHeight (LastObservedEthereumBlockHeight s)))
                (uint (EthereumHeight (LastObservedEthereumBlockHeight s)))
                (uint (AverageBlockTime (params s)))
                (uint (AverageEthereumBlockTime (params s)))
                (uint (TargetBatchTimeout (params s))))
       \<and> getBatchTimeoutHeight example_state = Inr 3900"
proof -
  let ?h = "LastObservedEthereumBlockHeight s"
  let ?p = "params s"
  let ?pm = "(BlockHeight s - CosmosHeight ?h) * AverageBlockTime ?p"
  have e: "uint (BlockHeight s - CosmosHeight ?h) = uint (BlockHeight s) - uint (CosmosHeight ?h)"
    using le by (simp add: uint_sub_lem [THEN iffD1] word_le_def)
  have pm: "uint ?pm = (uint (BlockHeight s) - uint (CosmosHeight ?h)) * uint (AverageBlockTime ?p)"
    using m e by (simp add: uint_mult_lem [THEN iffD1])
  have q: "uint (?pm div AverageEthereumBlockTime ?p)
           = ((uint (BlockHeight s) - uint (CosmosHeight ?h)) * uint (AverageBlockTime ?p))
               div uint (AverageEthereumBlockTime ?p)"
    by (simp add: uint_div pm)
  have b: "uint (TargetBatchTimeout ?p div AverageEthereumBlockTime ?p)
           = uint (TargetBatchTimeout ?p) div uint (AverageEthereumBlockTime ?p)"
    by (simp add: uint_div)
  have b0: "0 \<le> uint (TargetBatchTimeout ?p) div uint (AverageEthereumBlockTime ?p)"
    by (simp add: div_int_pos_iff)
  have r': "uint (EthereumHeight ?h)
            + ((uint (BlockHeight s) - uint (CosmosHeight ?h)) * uint (AverageBlockTime ?p))
                div uint (AverageEthereumBlockTime ?p)
            + uint (TargetBatchTimeout ?p) div uint (AverageEthereumBlockTime ?p) < 2 ^ 64"
    using r by (simp add: ProjectTimeout_spec_def Let_def)
  have s1: "uint (?pm div AverageEthereumBlockTime ?p + EthereumHeight ?h)
            = ((uint (BlockHeight s) - uint (CosmosHeight ?h)) * uint (AverageBlockTime ?p))
                div uint (AverageEthereumBlockTime ?p) + uint (EthereumHeight ?h)"
    using r' q b0 by (simp add: uint_add_lem [THEN iffD1])
  have s2: "uint (?pm div AverageEthereumBlockTime ?p + EthereumHeight ?h
                 + TargetBatchTimeout ?p div AverageEthereumBlockTime ?p)
            = ((uint (BlockHeight s) - uint (CosmosHeight ?h)) * uint (AverageBlockTime ?p))
                div uint (AverageEthereumBlockTime ?p) + uint (EthereumHeight ?h)
              + uint (TargetBatchTimeout ?p) div uint (AverageEthereumBlockTime ?p)"
    using r' s1 b by (simp add: uint_add_lem [THEN iffD1])
  have g: "\<exists>v. getBatchTimeoutHeight s = Inr v
            \<and> uint v = ProjectTimeout_spec (uint (BlockHeight s)) (uint (CosmosHeight ?h))
                (uint (EthereumHeight ?h)) (uint (AverageBlockTime ?p))
                (uint (AverageEthereumBlockTime ?p)) (uint (TargetBatchTimeout ?p))"
    using nz d s2 by (simp add: getBatchTimeoutHeight_def ProjectTimeout_spec_def Let_def)
  have x: "getBatchTimeoutHeight example_state = Inr 3900"
    by (simp add: getBatchTimeoutHeight_def example_state_def)
  show ?thesis using g x by blast
qed

theorem getBatchTimeoutHeight_projection_witness:
  "CosmosHeight (LastObservedEthereumBlockHeight example_state) \<noteq> 0
   \<and> EthereumHeight (LastObservedEthereumBlockHeight example_state) \<noteq> 0
   \<and> AverageEthereumBlockTime (params example_state) \<noteq> 0
   \<and> CosmosHeight (LastObservedEthereumBlockHeight example_state) \<le> BlockHeight example_state
   \<and> getBatchTimeoutHeight example_state = Inr 3900
   \<and> ProjectTimeout_spec 160 100 1000 5000 15000 43200000 = 3900"
proof -
  have h1: "CosmosHeight (LastObservedEthereumBlockHeight example_state) \<noteq> 0"
    by (simp add: example_state_def)
  have h2: "EthereumHeight (LastObservedEthereumBlockHeight example_state) \<noteq> 0"
    by (simp add: example_state_def)
  have h3: "AverageEthereumBlockTime (params example_state) \<noteq> 0"
    by (simp add: example_state_def)
  have h4: "CosmosHeight (LastObservedEthereumBlockHeight example_state)
              \<le> BlockHeight example_state"
    by (simp add: example_state_def)
  have h5: "(uint (BlockHeight example_state)
               - uint (CosmosHeight (LastObservedEthereumBlockHeight example_state)))
              * uint (AverageBlockTime (params example_state)) < 2 ^ 64"
    by (simp add: example_state_def)
  have h6: "ProjectTimeout_spec (uint (BlockHeight example_state))
              (uint (CosmosHeight (LastObservedEthereumBlockHeight example_state)))
              (uint (EthereumHeight (LastObservedEthereumBlockHeight example_state)))
              (uint (AverageBlockTime (params example_state)))
              (uint (AverageEthereumBlockTime (params example_state)))
              (uint (TargetBatchTimeout (params example_state))) < 2 ^ 64"
    by (simp add: example_state_def ProjectTimeout_spec_def)
  have p: "ProjectTimeout_spec 160 100 1000 5000 15000 43200000 = 3900"
    by (simp add: ProjectTimeout_spec_def)
  show ?thesis
    using getBatchTimeoutHeight_projection [OF h1 h2 h3 h4 h5 h6] h1 h2 h3 h4 p by blast
qed

text \<open>
  Claim C3 as stated fails where the \<^verbatim>\<open>uint64\<close> arithmetic wraps: with the example's
  parameters and observed pair (100, 1000) but current height 50, the subtraction of line 71
  wraps and the result is 1229782938251166, whereas the formula over the integers gives 3863.
\<close>

theorem getBatchTimeoutHeight_wraps:
  "getBatchTimeoutHeight earlier_height_state = Inr 1229782938251166
   \<and> ProjectTimeout_spec 50 100 1000 5000 15000 43200000 = 3863
   \<and> CosmosHeight (LastObservedEthereumBlockHeight earlier_height_state) \<noteq> 0
   \<and> EthereumHeight (LastObservedEthereumBlockHeight earlier_height_state) \<noteq> 0"
  by (simp add: getBatchTimeoutHeight_def earlier_height_state_def example_state_def
      ProjectTimeout_spec_def)

subsection \<open>The current batch of a token\<close>

lemma last_batch_iterate:
  assumes "iterate
            (\<lambda>btx (lastBatch, lastNonce).
               if HexToAddress (TokenContract btx) = token \<and> Nonce btx > lastNonce
               then (False, (Some btx, Nonce btx))
               else (False, (lastBatch, lastNonce))) bs (lb, ln) = (lb', ln')"
  shows "(\<forall>b\<in>set bs. TokenContract b = token \<longrightarrow> Nonce b \<le> ln')
       \<and> ((lb' = lb \<and> ln' = ln)
          \<or> (\<exists>b\<in>set bs. lb' = Some b \<and> TokenContract b = token \<and> Nonce b = ln' \<and> ln < ln'))"
  using assms
proof (induction bs arbitrary: lb ln)
  case Nil
  then show ?case by simp
next
  case (Cons x xs)
  show ?case
  proof (cases "HexToAddress (TokenContract x) = token \<and> Nonce x > ln")
    case True
    with Cons.prems have "iterate
            (\<lambda>btx (lastBatch, lastNonce).
               if HexToAddress (TokenContract btx) = token \<and> Nonce btx > lastNonce
               then (False, (Some btx, Nonce btx))
               else (False, (lastBatch, lastNonce))) xs (Some x, Nonce x) = (lb', ln')"
      by simp
    from Cons.IH [OF this] True show ?thesis
      by (auto simp: HexToAddress_def)
  next
    case False
    with Cons.prems have "iterate
            (\<lambda>btx (lastBatch, lastNonce).
               if HexToAddress (TokenContract btx) = token \<and> Nonce btx > lastNonce
               then (False, (Some btx, Nonce btx))
               else (False, (lastBatch, lastNonce))) xs (lb, ln) = (lb', ln')"
      by simp
    from Cons.IH [OF this] False show ?thesis
      by (auto simp: HexToAddress_def not_less)
  qed
qed

text \<open>
  Claim C9, as amended. \<^verbatim>\<open>GetLastOutgoingBatchByTokenType\<close> returns none exactly when the
  token has no outstanding batch with a nonzero nonce; a batch it returns is outstanding, is
  of that token, and has the largest nonce among all outstanding batches of the token.
\<close>

theorem GetLastOutgoingBatchByTokenType_highest_nonce:
  "(GetLastOutgoingBatchByTokenType s token = None
      \<longleftrightarrow> \<not> (\<exists>b\<in>set (OutgoingBatches s). TokenContract b = token \<and> Nonce b \<noteq> 0))
   \<and> (\<forall>b. GetLastOutgoingBatchByTokenType s token = Some b \<longrightarrow>
         b \<in> set (OutgoingBatches s) \<and> TokenContract b = token
         \<and> (\<forall>b'\<in>set (OutgoingBatches s). TokenContract b' = token \<longrightarrow> Nonce b' \<le> Nonce b))"
proof -
  obtain lb' ln' where r: "iterate
            (\<lambda>btx (lastBatch, lastNonce).
               if HexToAddress (TokenContract btx) = token \<and> Nonce btx > lastNonce
               then (False, (Some btx, Nonce btx))
               else (False, (lastBatch, lastNonce))) (OutgoingBatches s) (None, 0) = (lb', ln')"
    by (cases "iterate
            (\<lambda>btx (lastBatch, lastNonce).
               if HexToAddress (TokenContract btx) = token \<and> Nonce btx > lastNonce
               then (False, (Some btx, Nonce btx))
               else (False, (lastBatch, lastNonce))) (OutgoingBatches s) (None, 0 :: uint64)")
  have g: "GetLastOutgoingBatchByTokenType s token = lb'"
    by (simp add: GetLastOutgoingBatchByTokenType_def r)
  from last_batch_iterate [OF r] show ?thesis
    unfolding g by (auto simp: word_le_0_iff)
qed

theorem GetLastOutgoingBatchByTokenType_highest_nonce_witness:
  "GetLastOutgoingBatchByTokenType three_batch_state tokenA
     = Some \<lparr>Nonce = 3, Timeout = 3900, Transactions = [mk_transfer 3 tokenA 70 5],
             TokenContract = tokenA, Height = 155\<rparr>
   \<and> \<lparr>Nonce = 3, Timeout = 3900, Transactions = [mk_transfer 3 tokenA 70 5],
       TokenContract = tokenA, Height = 155\<rparr> \<in> set (OutgoingBatches three_batch_state)
   \<and> GetLastOutgoingBatchByTokenType three_batch_state tokenA \<noteq> None"
proof -
  have e: "GetLastOutgoingBatchByTokenType three_batch_state tokenA
     = Some \<lparr>Nonce = 3, Timeout = 3900, Transactions = [mk_transfer 3 tokenA 70 5],
             TokenContract = tokenA, Height = 155\<rparr>"
    by (simp add: GetLastOutgoingBatchByTokenType_def three_batch_state_def example_state_def
        HexToAddress_def tokenA_def tokenB_def)
  show ?thesis
    using GetLastOutgoingBatchByTokenType_highest_nonce [of three_batch_state tokenA] e by simp
qed

text \<open>
  Claim C9 as stated fails for a batch stored with nonce 0: the scan starts from
  \<^verbatim>\<open>lastNonce = 0\<close> and takes a batch only when its nonce is greater (line 143), so it
  returns none although an outstanding batch of the token exists.
\<close>

theorem GetLastOutgoingBatchByTokenType_nonce_zero:
  "GetLastOutgoingBatchByTokenType nonce_zero_state tokenA = None
   \<and> \<lparr>Nonce = 0, Timeout = 3900, Transactions = [mk_transfer 1 tokenA 70 5],
       TokenContract = tokenA, Height = 155\<rparr> \<in> set (OutgoingBatches nonce_zero_state)"
  by (simp add: GetLastOutgoingBatchByTokenType_def nonce_zero_state_def example_state_def
      HexToAddress_def)

subsection \<open>The two loops over the pool\<close>

lemma upto_stop_all: "n \<le> c \<Longrightarrow> upto_stop c n xs = xs"
  by (induction xs arbitrary: c) auto

lemma upto_stop_beyond: "c + int (length xs) < n \<Longrightarrow> upto_stop c n xs = xs"
proof (induction xs arbitrary: c)
  case Nil
  then show ?case by simp
next
  case (Cons x xs)
  have "c + 1 + int (length xs) < n" using Cons.prems by simp
  then show ?case using Cons.IH [of "c + 1"] by simp
qed

lemma fees_iterate:
  "(case iterate_panic
           (\<lambda>tx (feeAmount, i).
              case sdk_Int_Add feeAmount (Amount (Erc20Fee tx)) of
                Inl e \<Rightarrow> Inl e
              | Inr feeAmount' \<Rightarrow> Inr (i + 1 = maxElements, (feeAmount', i + 1)))
           xs (f, c) of
      Inl e \<Rightarrow> Inl e
    | Inr (feeAmount, i) \<Rightarrow> Inr feeAmount)
   = sum_fees f (upto_stop c maxElements xs)"
proof (induction xs arbitrary: f c)
  case Nil
  then show ?case by simp
next
  case (Cons x xs)
  show ?case
  proof (cases "sdk_Int_Add f (Amount (Erc20Fee x))")
    case (Inl e)
    then show ?thesis by simp
  next
    case (Inr f')
    then show ?thesis using Cons.IH [of f' "c + 1"] by simp
  qed
qed

lemma sum_fees_value:
  "sum_fees acc txs = Inr v \<Longrightarrow> v = acc + sum_list (map (\<lambda>tx. Amount (Erc20Fee tx)) txs)"
proof (induction txs arbitrary: acc)
  case Nil
  then show ?case by simp
next
  case (Cons x xs)
  from Cons.prems obtain acc' where a: "sdk_Int_Add acc (Amount (Erc20Fee x)) = Inr acc'"
    and r: "sum_fees acc' xs = Inr v"
    by (auto split: sum.splits)
  from a have "acc' = acc + Amount (Erc20Fee x)"
    by (auto simp: sdk_Int_Add_def split: if_splits)
  with Cons.IH [OF r] show ?case by simp
qed

lemma sum_fees_in_range:
  assumes "0 \<le> acc" and "\<forall>tx\<in>set txs. 0 \<le> Amount (Erc20Fee tx)"
    and "acc + sum_list (map (\<lambda>tx. Amount (Erc20Fee tx)) txs) < 2 ^ maxBitLen"
  shows "sum_fees acc txs = Inr (acc + sum_list (map (\<lambda>tx. Amount (Erc20Fee tx)) txs))"
  using assms
proof (induction txs arbitrary: acc)
  case Nil
  then show ?case by simp
next
  case (Cons x xs)
  have n: "0 \<le> sum_list (map (\<lambda>tx. Amount (Erc20Fee tx)) xs)"
    using Cons.prems(2) by (intro sum_list_nonneg) auto
  have x: "0 \<le> Amount (Erc20Fee x)" using Cons.prems(2) by simp
  have a: "sdk_Int_Add acc (Amount (Erc20Fee x)) = Inr (acc + Amount (Erc20Fee x))"
    using Cons.prems(1,3) n x by (simp add: sdk_Int_Add_def)
  have "sum_fees (acc + Amount (Erc20Fee x)) xs
        = Inr (acc + Amount (Erc20Fee x) + sum_list (map (\<lambda>tx. Amount (Erc20Fee tx)) xs))"
    using Cons.prems x by (intro Cons.IH) (simp_all add: add.assoc)
  then show ?case by (simp add: a add.assoc)
qed

lemma select_iterate_fst:
  "fst (iterate
       (\<lambda>ste (selectedStes, st).
          let selectedStes' = selectedStes @ [ste];
              st' = DeleteUnbatchedSendToEthereum st (Id_ste ste) (Erc20Fee ste)
          in (int (length selectedStes') = maxElements, (selectedStes', st')))
       xs (sel, s))
   = sel @ upto_stop (int (length sel)) maxElements xs"
proof (induction xs arbitrary: sel s)
  case Nil
  then show ?case by simp
next
  case (Cons x xs)
  show ?case
    using Cons.IH [of "sel @ [x]" "DeleteUnbatchedSendToEthereum s (Id_ste x) (Erc20Fee x)"]
    by (simp add: Let_def add.commute)
qed

lemma select_iterate_snd:
  "snd (iterate
       (\<lambda>ste (selectedStes, st).
          let selectedStes' = selectedStes @ [ste];
              st' = DeleteUnbatchedSendToEthereum st (Id_ste ste) (Erc20Fee ste)
          in (int (length selectedStes') = maxElements, (selectedStes', st')))
       xs (sel, s))
   = s\<lparr>Unbatched :=
         filter (\<lambda>y. ste_key y \<notin> ste_key ` set (upto_stop (int (length sel)) maxElements xs))
           (Unbatched s)\<rparr>"
proof (induction xs arbitrary: sel s)
  case Nil
  then show ?case by simp
next
  case (Cons x xs)
  have k: "(Id_ste x, Erc20Fee x) = ste_key x" by (simp add: ste_key_def)
  show ?case
    using Cons.IH [of "sel @ [x]" "DeleteUnbatchedSendToEthereum s (Id_ste x) (Erc20Fee x)"]
    by (simp add: Let_def add.commute k DeleteUnbatchedSendToEthereum_def conj_commute)
qed

lemma selectStes_fst:
  "fst (selectStes s T n) = upto_stop 0 n (UnbatchedSendToEthereumsByContract s T)"
  using select_iterate_fst [of n "UnbatchedSendToEthereumsByContract s T" "[]" s]
  by (simp add: selectStes_def)

lemma selectStes_snd:
  "snd (selectStes s T n)
     = s\<lparr>Unbatched :=
           filter (\<lambda>y. ste_key y
                         \<notin> ste_key ` set (upto_stop 0 n (UnbatchedSendToEthereumsByContract s T)))
             (Unbatched s)\<rparr>"
  using select_iterate_snd [of n "UnbatchedSendToEthereumsByContract s T" "[]" s]
  by (simp add: selectStes_def)

lemma GetBatchFeesByTokenType_sum:
  "GetBatchFeesByTokenType s T n
     = sum_fees 0 (upto_stop 0 n (UnbatchedSendToEthereumsByContract s T))"
  unfolding GetBatchFeesByTokenType_def by (rule fees_iterate)

lemma GetBatchFeesByTokenType_value:
  "GetBatchFeesByTokenType s T n = Inr fees \<Longrightarrow>
   fees = sum_list (map (\<lambda>tx. Amount (Erc20Fee tx))
            (upto_stop 0 n (UnbatchedSendToEthereumsByContract s T)))"
  using sum_fees_value [of 0] by (simp add: GetBatchFeesByTokenType_sum)

text \<open>
  Claim C10. With \<^verbatim>\<open>maxElements = 0\<close> the selection loop of \<^verbatim>\<open>BuildBatchTx\<close> takes
  every entry of the token's pool, in pool order, and leaves none of them in the pool, and
  \<^verbatim>\<open>GetBatchFeesByTokenType\<close> adds up the fees of every entry of the token's pool: the count
  is compared with the limit after it was incremented, so it never equals 0. The result of
  \<^verbatim>\<open>GetBatchFeesByTokenType\<close> is the \<^verbatim>\<open>sdk.Int\<close> sum over the whole pool: when it
  returns, the sum of all the fees, and it returns whenever the fees are not negative and
  their sum is below \<open>2 ^ 255\<close>. Both loops do with the limit 0 what they do with any limit
  larger than the size of the token's pool.
\<close>

theorem zero_limit_is_unlimited:
  "fst (selectStes s T 0) = UnbatchedSendToEthereumsByContract s T
   \<and> UnbatchedSendToEthereumsByContract (snd (selectStes s T 0)) T = []
   \<and> GetBatchFeesByTokenType s T 0 = sum_fees 0 (UnbatchedSendToEthereumsByContract s T)
   \<and> (\<forall>fees. GetBatchFeesByTokenType s T 0 = Inr fees \<longrightarrow>
         fees = sum_list (map (\<lambda>tx. Amount (Erc20Fee tx))
                  (UnbatchedSendToEthereumsByContract s T)))
   \<and> ((\<forall>tx\<in>set (UnbatchedSendToEthereumsByContract s T). 0 \<le> Amount (Erc20Fee tx))
        \<and> sum_list (map (\<lambda>tx. Amount (Erc20Fee tx)) (UnbatchedSendToEthereumsByContract s T))
            < 2 ^ maxBitLen
      \<longrightarrow> GetBatchFeesByTokenType s T 0
            = Inr (sum_list (map (\<lambda>tx. Amount (Erc20Fee tx))
                     (UnbatchedSendToEthereumsByContract s T))))
   \<and> (\<forall>n. int (length (UnbatchedSendToEthereumsByContract s T)) < n \<longrightarrow>
         selectStes s T 0 = selectStes s T n
         \<and> GetBatchFeesByTokenType s T 0 = GetBatchFeesByTokenType s T n)"
proof -
  let ?pool = "UnbatchedSendToEthereumsByContract s T"
  have a: "upto_stop 0 0 ?pool = ?pool"
    by (simp add: upto_stop_all)
  have b: "UnbatchedSendToEthereumsByContract (snd (selectStes s T 0)) T = []"
    unfolding selectStes_snd a
    by (auto simp: UnbatchedSendToEthereumsByContract_def filter_empty_conv)
  have c: "GetBatchFeesByTokenType s T 0 = sum_fees 0 ?pool"
    by (simp add: GetBatchFeesByTokenType_sum a)
  have d: "\<forall>fees. GetBatchFeesByTokenType s T 0 = Inr fees \<longrightarrow>
         fees = sum_list (map (\<lambda>tx. Amount (Erc20Fee tx)) ?pool)"
    using GetBatchFeesByTokenType_value [of s T 0] by (simp add: a)
  have e: "(\<forall>tx\<in>set ?pool. 0 \<le> Amount (Erc20Fee tx))
        \<and> sum_list (map (\<lambda>tx. Amount (Erc20Fee tx)) ?pool) < 2 ^ maxBitLen
      \<longrightarrow> GetBatchFeesByTokenType s T 0 = Inr (sum_list (map (\<lambda>tx. Amount (Erc20Fee tx)) ?pool))"
    using sum_fees_in_range [of 0 ?pool] by (simp add: c)
  have f: "fst (selectStes s T 0) = ?pool"
    by (simp add: selectStes_fst a)
  have g: "\<forall>n. int (length ?pool) < n \<longrightarrow>
         selectStes s T 0 = selectStes s T n
         \<and> GetBatchFeesByTokenType s T 0 = GetBatchFeesByTokenType s T n"
  proof (intro allI impI)
    fix n assume "int (length ?pool) < n"
    then have u: "upto_stop 0 n ?pool = ?pool" by (simp add: upto_stop_beyond)
    have "selectStes s T 0 = selectStes s T n"
      by (rule prod_eqI) (simp_all only: selectStes_fst selectStes_snd a u)
    moreover have "GetBatchFeesByTokenType s T 0 = GetBatchFeesByTokenType s T n"
      by (simp only: GetBatchFeesByTokenType_sum a u)
    ultimately show "selectStes s T 0 = selectStes s T n
         \<and> GetBatchFeesByTokenType s T 0 = GetBatchFeesByTokenType s T n"
      by (rule conjI)
  qed
  show ?thesis by (intro conjI) (rule f b c d e g)+
qed


theorem zero_limit_is_unlimited_witness:
  "fst (selectStes pool_state tokenA 0)
     = [mk_transfer 1 tokenA 100 10, mk_transfer 2 tokenA 100 7, mk_transfer 3 tokenA 100 3]
   \<and> GetBatchFeesByTokenType pool_state tokenA 0 = Inr 20"
proof -
  have p: "UnbatchedSendToEthereumsByContract pool_state tokenA
     = [mk_transfer 1 tokenA 100 10, mk_transfer 2 tokenA 100 7, mk_transfer 3 tokenA 100 3]"
    by (simp add: UnbatchedSendToEthereumsByContract_def pool_state_def example_state_def
        mk_transfer_def HexToAddress_def tokenA_def tokenB_def)
  have i: "(\<forall>tx\<in>set (UnbatchedSendToEthereumsByContract pool_state tokenA).
               0 \<le> Amount (Erc20Fee tx))
           \<and> sum_list (map (\<lambda>tx. Amount (Erc20Fee tx))
                 (UnbatchedSendToEthereumsByContract pool_state tokenA)) < 2 ^ maxBitLen"
    by (simp add: p mk_transfer_def maxBitLen_def)
  have v: "sum_list (map (\<lambda>tx. Amount (Erc20Fee tx))
             (UnbatchedSendToEthereumsByContract pool_state tokenA)) = 20"
    by (simp add: p mk_transfer_def)
  note t = zero_limit_is_unlimited [of pool_state tokenA]
  from t i have "GetBatchFeesByTokenType pool_state tokenA 0
        = Inr (sum_list (map (\<lambda>tx. Amount (Erc20Fee tx))
                 (UnbatchedSendToEthereumsByContract pool_state tokenA)))"
    by blast
  then have f: "GetBatchFeesByTokenType pool_state tokenA 0 = Inr 20"
    by (simp only: v)
  from t have "fst (selectStes pool_state tokenA 0)
        = UnbatchedSendToEthereumsByContract pool_state tokenA"
    by blast
  then show ?thesis using f by (simp only: p simp_thms)
qed

subsection \<open>Reads and writes of the two stores\<close>

lemma find_insert_batch_new:
  "P b \<Longrightarrow> \<forall>y\<in>set l. \<not> P y \<Longrightarrow> find P (insert_batch b l) = Some b"
  by (induction l) auto

lemma find_insert_ste_other: "\<not> P x \<Longrightarrow> find P (insert_ste x l) = find P l"
  by (induction l) auto

lemma find_insert_ste_new:
  "P x \<Longrightarrow> \<forall>y\<in>set l. \<not> P y \<Longrightarrow> find P (insert_ste x l) = Some x"
  by (induction l) auto

lemma find_filter_none: "\<forall>y. P y \<longrightarrow> \<not> Q y \<Longrightarrow> find P (filter Q l) = None"
  by (induction l) auto

lemma find_filter_same: "\<forall>y. P y \<longrightarrow> Q y \<Longrightarrow> find P (filter Q l) = find P l"
  by (induction l) auto

lemma GetOutgoingTx_Set_same: "GetOutgoingTx (SetOutgoingTx s b) (GetStoreIndex b) = Some b"
  by (simp add: GetOutgoingTx_def SetOutgoingTx_def find_insert_batch_new)

lemma GetOutgoingTx_EmitEvent: "GetOutgoingTx (EmitEvent s ty n) key = GetOutgoingTx s key"
  by (simp add: GetOutgoingTx_def EmitEvent_def)

lemma GetOutgoingTx_index: "GetOutgoingTx s key = Some b \<Longrightarrow> GetStoreIndex b = key"
  by (auto simp: GetOutgoingTx_def find_Some_iff)

lemma GetUnbatched_Set:
  "GetUnbatchedSendToEthereum (SetUnbatchedSendToEthereum s x) pk
     = (if pk = ste_key x then Some x else GetUnbatchedSendToEthereum s pk)"
  by (auto simp: GetUnbatchedSendToEthereum_def SetUnbatchedSendToEthereum_def
      find_insert_ste_new find_insert_ste_other find_filter_same)

lemma GetUnbatched_foldl_other:
  "pk \<notin> ste_key ` set txs \<Longrightarrow>
   GetUnbatchedSendToEthereum (foldl SetUnbatchedSendToEthereum s txs) pk
     = GetUnbatchedSendToEthereum s pk"
  by (induction txs arbitrary: s) (auto simp: GetUnbatched_Set)

lemma GetUnbatched_foldl_member:
  "tx \<in> set txs \<Longrightarrow> \<forall>tx'\<in>set txs. ste_key tx' = ste_key tx \<longrightarrow> tx' = tx \<Longrightarrow>
   GetUnbatchedSendToEthereum (foldl SetUnbatchedSendToEthereum s txs) (ste_key tx) = Some tx"
proof (induction txs rule: rev_induct)
  case Nil
  then show ?case by simp
next
  case (snoc x xs)
  show ?case
  proof (cases "ste_key x = ste_key tx")
    case True
    with snoc.prems have "x = tx" by simp
    then show ?thesis by (simp add: GetUnbatched_Set)
  next
    case False
    with snoc.prems have "tx \<in> set xs" by auto
    with snoc.IH snoc.prems False show ?thesis by (simp add: GetUnbatched_Set)
  qed
qed

lemma foldl_Set_batches:
  "OutgoingBatches (foldl SetUnbatchedSendToEthereum s txs) = OutgoingBatches s"
  by (induction txs arbitrary: s) (auto simp: SetUnbatchedSendToEthereum_def)

lemma GetUnbatched_member:
  "GetUnbatchedSendToEthereum s pk = Some tx \<Longrightarrow> tx \<in> set (Unbatched s)"
  by (auto simp: GetUnbatchedSendToEthereum_def find_Some_iff)

subsection \<open>The order of the pool\<close>

lemma pool_key_less_trans:
  "pool_key_less a b \<Longrightarrow> pool_key_less b c \<Longrightarrow> pool_key_less a c"
  by (auto simp: pool_key_less_def)

lemma pool_key_less_total:
  "\<not> pool_key_less a b \<Longrightarrow> a \<noteq> b \<Longrightarrow> pool_key_less b a"
  by (cases a, cases b) (auto simp: pool_key_less_def not_less ERC20Token.equality)

lemma set_insert_ste: "set (insert_ste x l) = insert x (set l)"
  by (induction l) auto

lemma pool_sorted_insert_ste:
  "pool_sorted l \<Longrightarrow> \<forall>y\<in>set l. ste_key y \<noteq> ste_key x \<Longrightarrow> pool_sorted (insert_ste x l)"
proof (induction l)
  case Nil
  then show ?case by (simp add: pool_sorted_def)
next
  case (Cons y ys)
  have s: "pool_sorted ys" and above: "\<forall>z\<in>set ys. pool_key_less (ste_key z) (ste_key y)"
    using Cons.prems(1) by (simp_all add: pool_sorted_def)
  show ?case
  proof (cases "pool_key_less (ste_key y) (ste_key x)")
    case True
    have "\<forall>z\<in>set ys. pool_key_less (ste_key z) (ste_key x)"
      using above True pool_key_less_trans by blast
    then show ?thesis using True Cons.prems(1) by (simp add: pool_sorted_def)
  next
    case False
    have "ste_key x \<noteq> ste_key y" using Cons.prems(2) by auto
    then have xy: "pool_key_less (ste_key x) (ste_key y)"
      using False pool_key_less_total by metis
    have "pool_sorted (insert_ste x ys)" using Cons.IH s Cons.prems(2) by simp
    then show ?thesis using False xy above
      by (simp add: pool_sorted_def set_insert_ste)
  qed
qed

lemma pool_sorted_Set:
  "pool_sorted (Unbatched s) \<Longrightarrow> pool_sorted (Unbatched (SetUnbatchedSendToEthereum s x))"
proof -
  assume a: "pool_sorted (Unbatched s)"
  have "pool_sorted (filter (\<lambda>y. ste_key y \<noteq> ste_key x) (Unbatched s))"
    using a by (simp add: pool_sorted_def sorted_wrt_filter)
  then show ?thesis
    by (simp add: SetUnbatchedSendToEthereum_def pool_sorted_insert_ste)
qed

lemma pool_sorted_foldl:
  "pool_sorted (Unbatched s) \<Longrightarrow>
   pool_sorted (Unbatched (foldl SetUnbatchedSendToEthereum s txs))"
  by (induction txs arbitrary: s) (simp_all add: pool_sorted_Set)

lemma set_Unbatched_Set:
  "set (Unbatched (SetUnbatchedSendToEthereum s x))
     = insert x {e \<in> set (Unbatched s). ste_key e \<noteq> ste_key x}"
  by (auto simp: SetUnbatchedSendToEthereum_def set_insert_ste)

lemma set_Unbatched_foldl:
  "\<forall>tx\<in>set txs. \<forall>tx'\<in>set txs. ste_key tx' = ste_key tx \<longrightarrow> tx' = tx \<Longrightarrow>
   set (Unbatched (foldl SetUnbatchedSendToEthereum s txs))
     = set txs \<union> {e \<in> set (Unbatched s). ste_key e \<notin> ste_key ` set txs}"
proof (induction txs rule: rev_induct)
  case Nil
  then show ?case by simp
next
  case (snoc x xs)
  have u: "\<forall>tx\<in>set xs. \<forall>tx'\<in>set xs. ste_key tx' = ste_key tx \<longrightarrow> tx' = tx"
    using snoc.prems by simp
  have k: "\<forall>tx\<in>set xs. ste_key tx = ste_key x \<longrightarrow> tx = x"
    using snoc.prems by simp
  show ?case
    using k by (auto simp: set_Unbatched_Set snoc.IH [OF u])
qed

subsection \<open>Cancelling a batch\<close>

lemma CancelBatchTx_state:
  assumes "GetOutgoingTx s (MakeBatchTxKey T k) = Some batch"
  shows "CancelBatchTx s T k =
           Inr (EmitEvent
                  (DeleteOutgoingTx (foldl SetUnbatchedSendToEthereum s (Transactions batch))
                     (MakeBatchTxKey T k))
                  ''outgoing_batch_canceled'' k)"
  using assms GetOutgoingTx_index [OF assms] by (simp add: CancelBatchTx_def Let_def)

text \<open>
  Claim C5. When a batch is stored at (T, k), \<^verbatim>\<open>CancelBatchTx\<close> returns normally and in
  the state it returns: no record is stored at (T, k); every other batch key reads as before;
  every member transfer (one with its own pool index among the members) is in the pool under
  its index, the whole record unchanged, so with its fee, amount and destination, and it is
  among the entries of token T when its fee is in token T; every pool index that is not the
  index of a member reads as before. The members are re-indexed by fee: a pool that was in
  index order (fee-descending within a token) is in index order afterwards, and it holds
  exactly the members and the entries it held under other indices, so each member stands at
  the place its fee gives it.
\<close>

theorem CancelBatchTx_requeues:
  assumes "GetOutgoingTx s (MakeBatchTxKey T k) = Some batch"
  shows "\<exists>s'. CancelBatchTx s T k = Inr s'
     \<and> GetOutgoingTx s' (MakeBatchTxKey T k) = None
     \<and> (\<forall>key. key \<noteq> MakeBatchTxKey T k \<longrightarrow> GetOutgoingTx s' key = GetOutgoingTx s key)
     \<and> (\<forall>tx\<in>set (Transactions batch).
          (\<forall>tx'\<in>set (Transactions batch). ste_key tx' = ste_key tx \<longrightarrow> tx' = tx) \<longrightarrow>
          GetUnbatchedSendToEthereum s' (ste_key tx) = Some tx
          \<and> (HexToAddress (Contract (Erc20Fee tx)) = T \<longrightarrow>
               tx \<in> set (UnbatchedSendToEthereumsByContract s' T)))
     \<and> (\<forall>pk. pk \<notin> ste_key ` set (Transactions batch) \<longrightarrow>
          GetUnbatchedSendToEthereum s' pk = GetUnbatchedSendToEthereum s pk)
     \<and> (pool_sorted (Unbatched s) \<longrightarrow> pool_sorted (Unbatched s'))
     \<and> ((\<forall>tx\<in>set (Transactions batch). \<forall>tx'\<in>set (Transactions batch).
            ste_key tx' = ste_key tx \<longrightarrow> tx' = tx) \<longrightarrow>
          set (Unbatched s')
            = set (Transactions batch)
              \<union> {e \<in> set (Unbatched s). ste_key e \<notin> ste_key ` set (Transactions batch)})"
proof -
  let ?s1 = "foldl SetUnbatchedSendToEthereum s (Transactions batch)"
  let ?s' = "EmitEvent (DeleteOutgoingTx ?s1 (MakeBatchTxKey T k)) ''outgoing_batch_canceled'' k"
  have u: "Unbatched ?s' = Unbatched ?s1"
    by (simp add: EmitEvent_def DeleteOutgoingTx_def)
  have o: "OutgoingBatches ?s'
           = filter (\<lambda>b. GetStoreIndex b \<noteq> MakeBatchTxKey T k) (OutgoingBatches s)"
    by (simp add: EmitEvent_def DeleteOutgoingTx_def foldl_Set_batches)
  have gu: "\<And>pk. GetUnbatchedSendToEthereum ?s' pk = GetUnbatchedSendToEthereum ?s1 pk"
    by (simp add: GetUnbatchedSendToEthereum_def u)
  have a: "GetOutgoingTx ?s' (MakeBatchTxKey T k) = None"
    by (simp add: GetOutgoingTx_def o find_filter_none)
  have b: "\<forall>key. key \<noteq> MakeBatchTxKey T k \<longrightarrow> GetOutgoingTx ?s' key = GetOutgoingTx s key"
    by (simp add: GetOutgoingTx_def o find_filter_same)
  have c: "\<forall>tx\<in>set (Transactions batch).
          (\<forall>tx'\<in>set (Transactions batch). ste_key tx' = ste_key tx \<longrightarrow> tx' = tx) \<longrightarrow>
          GetUnbatchedSendToEthereum ?s' (ste_key tx) = Some tx
          \<and> (HexToAddress (Contract (Erc20Fee tx)) = T \<longrightarrow>
               tx \<in> set (UnbatchedSendToEthereumsByContract ?s' T))"
  proof (intro ballI impI)
    fix tx assume m: "tx \<in> set (Transactions batch)"
      and q: "\<forall>tx'\<in>set (Transactions batch). ste_key tx' = ste_key tx \<longrightarrow> tx' = tx"
    have g: "GetUnbatchedSendToEthereum ?s' (ste_key tx) = Some tx"
      unfolding gu by (rule GetUnbatched_foldl_member [OF m q])
    from GetUnbatched_member [OF g]
    show "GetUnbatchedSendToEthereum ?s' (ste_key tx) = Some tx
          \<and> (HexToAddress (Contract (Erc20Fee tx)) = T \<longrightarrow>
               tx \<in> set (UnbatchedSendToEthereumsByContract ?s' T))"
      using g by (simp add: UnbatchedSendToEthereumsByContract_def)
  qed
  have d: "\<forall>pk. pk \<notin> ste_key ` set (Transactions batch) \<longrightarrow>
          GetUnbatchedSendToEthereum ?s' pk = GetUnbatchedSendToEthereum s pk"
    unfolding gu by (simp add: GetUnbatched_foldl_other)
  have e: "pool_sorted (Unbatched s) \<longrightarrow> pool_sorted (Unbatched ?s')"
    unfolding u by (simp add: pool_sorted_foldl)
  have f: "(\<forall>tx\<in>set (Transactions batch). \<forall>tx'\<in>set (Transactions batch).
            ste_key tx' = ste_key tx \<longrightarrow> tx' = tx) \<longrightarrow>
          set (Unbatched ?s')
            = set (Transactions batch)
              \<union> {e \<in> set (Unbatched s). ste_key e \<notin> ste_key ` set (Transactions batch)}"
    unfolding u by (rule impI) (rule set_Unbatched_foldl)
  have "CancelBatchTx s T k = Inr ?s'
     \<and> GetOutgoingTx ?s' (MakeBatchTxKey T k) = None
     \<and> (\<forall>key. key \<noteq> MakeBatchTxKey T k \<longrightarrow> GetOutgoingTx ?s' key = GetOutgoingTx s key)
     \<and> (\<forall>tx\<in>set (Transactions batch).
          (\<forall>tx'\<in>set (Transactions batch). ste_key tx' = ste_key tx \<longrightarrow> tx' = tx) \<longrightarrow>
          GetUnbatchedSendToEthereum ?s' (ste_key tx) = Some tx
          \<and> (HexToAddress (Contract (Erc20Fee tx)) = T \<longrightarrow>
               tx \<in> set (UnbatchedSendToEthereumsByContract ?s' T)))
     \<and> (\<forall>pk. pk \<notin> ste_key ` set (Transactions batch) \<longrightarrow>
          GetUnbatchedSendToEthereum ?s' pk = GetUnbatchedSendToEthereum s pk)
     \<and> (pool_sorted (Unbatched s) \<longrightarrow> pool_sorted (Unbatched ?s'))
     \<and> ((\<forall>tx\<in>set (Transactions batch). \<forall>tx'\<in>set (Transactions batch).
            ste_key tx' = ste_key tx \<longrightarrow> tx' = tx) \<longrightarrow>
          set (Unbatched ?s')
            = set (Transactions batch)
              \<union> {e \<in> set (Unbatched s). ste_key e \<notin> ste_key ` set (Transactions batch)})"
    by (intro conjI) (rule CancelBatchTx_state [OF assms] a b c d e f)+
  then show ?thesis by (rule exI [where x = ?s'])
qed

lemma CancelBatchTx_cancel_state:
  "CancelBatchTx cancel_state tokenA 2 =
     Inr (cancel_state
            \<lparr>OutgoingBatches := [],
             Unbatched :=
               [mk_transfer 9 tokenA 500 50, mk_transfer 1 tokenA 100 10,
                mk_transfer 2 tokenA 100 7, mk_transfer 3 tokenA 100 3],
             Events := [\<lparr>EventType = ''outgoing_batch_canceled'',
                         AttributeContract = ''0xBridge'', AttributeBridgeChainID = 1,
                         AttributeNonce = 2\<rparr>]\<rparr>)"
  by (simp add: CancelBatchTx_def cancel_state_def example_state_def tokenA_def
      GetOutgoingTx_def GetStoreIndex_def MakeBatchTxKey_def HexToAddress_def
      mk_transfer_def SetUnbatchedSendToEthereum_def DeleteOutgoingTx_def EmitEvent_def
      ste_key_def pool_key_less_def)

theorem CancelBatchTx_requeues_witness:
  "GetOutgoingTx cancel_state (MakeBatchTxKey tokenA 2)
     = Some \<lparr>Nonce = 2, Timeout = 3900,
             Transactions = [mk_transfer 1 tokenA 100 10, mk_transfer 2 tokenA 100 7],
             TokenContract = tokenA, Height = 155\<rparr>
   \<and> pool_sorted (Unbatched cancel_state)
   \<and> (\<exists>s'. CancelBatchTx cancel_state tokenA 2 = Inr s'
         \<and> GetOutgoingTx s' (MakeBatchTxKey tokenA 2) = None
         \<and> Unbatched s'
             = [mk_transfer 9 tokenA 500 50, mk_transfer 1 tokenA 100 10,
                mk_transfer 2 tokenA 100 7, mk_transfer 3 tokenA 100 3]
         \<and> pool_sorted (Unbatched s')
         \<and> GetUnbatchedSendToEthereum s' (ste_key (mk_transfer 2 tokenA 100 7))
             = Some (mk_transfer 2 tokenA 100 7))"
proof -
  have h: "GetOutgoingTx cancel_state (MakeBatchTxKey tokenA 2)
     = Some \<lparr>Nonce = 2, Timeout = 3900,
             Transactions = [mk_transfer 1 tokenA 100 10, mk_transfer 2 tokenA 100 7],
             TokenContract = tokenA, Height = 155\<rparr>"
    by (simp add: GetOutgoingTx_def cancel_state_def example_state_def GetStoreIndex_def
        MakeBatchTxKey_def HexToAddress_def)
  have p: "pool_sorted (Unbatched cancel_state)"
    by (simp add: pool_sorted_def cancel_state_def example_state_def mk_transfer_def
        ste_key_def pool_key_less_def)
  from CancelBatchTx_requeues [OF h]
  obtain s' where c: "CancelBatchTx cancel_state tokenA 2 = Inr s'"
    and n: "GetOutgoingTx s' (MakeBatchTxKey tokenA 2) = None"
    and q: "pool_sorted (Unbatched cancel_state) \<longrightarrow> pool_sorted (Unbatched s')"
    by blast
  from c have e: "s' = cancel_state
            \<lparr>OutgoingBatches := [],
             Unbatched :=
               [mk_transfer 9 tokenA 500 50, mk_transfer 1 tokenA 100 10,
                mk_transfer 2 tokenA 100 7, mk_transfer 3 tokenA 100 3],
             Events := [\<lparr>EventType = ''outgoing_batch_canceled'',
                         AttributeContract = ''0xBridge'', AttributeBridgeChainID = 1,
                         AttributeNonce = 2\<rparr>]\<rparr>"
    by (simp add: CancelBatchTx_cancel_state)
  have l: "Unbatched s'
             = [mk_transfer 9 tokenA 500 50, mk_transfer 1 tokenA 100 10,
                mk_transfer 2 tokenA 100 7, mk_transfer 3 tokenA 100 3]"
    by (simp add: e)
  have g: "GetUnbatchedSendToEthereum s' (ste_key (mk_transfer 2 tokenA 100 7))
             = Some (mk_transfer 2 tokenA 100 7)"
    by (simp add: GetUnbatchedSendToEthereum_def l) (simp add: ste_key_def mk_transfer_def)
  have q': "pool_sorted (Unbatched s')" using q p by simp
  show ?thesis using h p c n l q' g by (intro conjI exI [of _ s'])
qed

subsection \<open>Building a batch\<close>

lemma BuildBatchTx_unfold:
  "BuildBatchTx s T n =
     (case (case GetLastOutgoingBatchByTokenType s T of
              None \<Rightarrow> Inr False
            | Some lastBatch \<Rightarrow>
                (case GetBatchFeesByTokenType s T n of
                   Inl e \<Rightarrow> Inl e
                 | Inr fees \<Rightarrow> Inr (GetFees lastBatch \<ge> fees))) of
        Inl e \<Rightarrow> Inl e
      | Inr moreProfitable \<Rightarrow>
          if moreProfitable then Inr (None, s)
          else
            case getBatchTimeoutHeight s of
              Inl e \<Rightarrow> Inl e
            | Inr timeout \<Rightarrow>
                Inr (Some \<lparr>Nonce = counter s + 1, Timeout = timeout,
                           Transactions = upto_stop 0 n (UnbatchedSendToEthereumsByContract s T),
                           TokenContract = T, Height = BlockHeight s\<rparr>,
                     EmitEvent
                       (SetOutgoingTx
                          (s\<lparr>Unbatched :=
                               filter (\<lambda>y. ste_key y \<notin> ste_key `
                                         set (upto_stop 0 n
                                                (UnbatchedSendToEthereumsByContract s T)))
                                 (Unbatched s),
                             LastOutgoingBatchNonce := Some (counter s + 1)\<rparr>)
                          \<lparr>Nonce = counter s + 1, Timeout = timeout,
                           Transactions = upto_stop 0 n (UnbatchedSendToEthereumsByContract s T),
                           TokenContract = T, Height = BlockHeight s\<rparr>)
                       ''outgoing_batch'' (counter s + 1)))"
proof -
  let ?sel = "upto_stop 0 n (UnbatchedSendToEthereumsByContract s T)"
  let ?s1 = "s\<lparr>Unbatched := filter (\<lambda>y. ste_key y \<notin> ste_key ` set ?sel) (Unbatched s)\<rparr>"
  let ?s2 = "?s1\<lparr>LastOutgoingBatchNonce := Some (counter s + 1)\<rparr>"
  have sel: "selectStes s T n = (?sel, ?s1)"
    by (rule prod_eqI) (simp_all add: selectStes_fst selectStes_snd)
  have inc: "IncrementLastOutgoingBatchNonce ?s1 = (counter s + 1, ?s2)"
    by (simp add: IncrementLastOutgoingBatchNonce_def counter_def Let_def)
  have t2: "getBatchTimeoutHeight ?s2 = getBatchTimeoutHeight s"
    by (simp add: getBatchTimeoutHeight_def)
  have h: "BlockHeight ?s2 = BlockHeight s" by simp
  show ?thesis
    unfolding BuildBatchTx_def
    by (simp only: sel inc t2 h Hex_def Let_def prod.case BatchTx.simps)
qed

lemma BuildBatchTx_aborts:
  assumes "GetLastOutgoingBatchByTokenType s T = Some lastBatch"
    and "GetBatchFeesByTokenType s T n = Inr fees" and "fees \<le> GetFees lastBatch"
  shows "BuildBatchTx s T n = Inr (None, s)"
  using assms(3) by (simp add: BuildBatchTx_unfold assms(1,2))

lemma BuildBatchTx_builds:
  assumes "GetLastOutgoingBatchByTokenType s T = None
         \<or> (\<exists>lastBatch fees. GetLastOutgoingBatchByTokenType s T = Some lastBatch
               \<and> GetBatchFeesByTokenType s T n = Inr fees \<and> \<not> fees \<le> GetFees lastBatch)"
    and "getBatchTimeoutHeight s = Inr timeout"
  shows "BuildBatchTx s T n =
           Inr (Some \<lparr>Nonce = counter s + 1, Timeout = timeout,
                      Transactions = upto_stop 0 n (UnbatchedSendToEthereumsByContract s T),
                      TokenContract = T, Height = BlockHeight s\<rparr>,
                EmitEvent
                  (SetOutgoingTx
                     (s\<lparr>Unbatched :=
                          filter (\<lambda>y. ste_key y \<notin> ste_key `
                                    set (upto_stop 0 n (UnbatchedSendToEthereumsByContract s T)))
                            (Unbatched s),
                        LastOutgoingBatchNonce := Some (counter s + 1)\<rparr>)
                     \<lparr>Nonce = counter s + 1, Timeout = timeout,
                      Transactions = upto_stop 0 n (UnbatchedSendToEthereumsByContract s T),
                      TokenContract = T, Height = BlockHeight s\<rparr>)
                  ''outgoing_batch'' (counter s + 1))"
  using assms(1)
proof
  assume "GetLastOutgoingBatchByTokenType s T = None"
  then show ?thesis by (simp add: BuildBatchTx_unfold assms(2))
next
  assume "\<exists>lastBatch fees. GetLastOutgoingBatchByTokenType s T = Some lastBatch
               \<and> GetBatchFeesByTokenType s T n = Inr fees \<and> \<not> fees \<le> GetFees lastBatch"
  then obtain lastBatch fees where l: "GetLastOutgoingBatchByTokenType s T = Some lastBatch"
    and f: "GetBatchFeesByTokenType s T n = Inr fees" and g: "\<not> fees \<le> GetFees lastBatch"
    by blast
  show ?thesis using g by (simp add: BuildBatchTx_unfold l f assms(2))
qed

text \<open>
  Claim C2, as amended. Provided the timeout projection cannot panic (the average Ethereum
  block time is nonzero, or an observed height is 0) and \<^verbatim>\<open>GetBatchFeesByTokenType\<close>
  returns a total (its \<^verbatim>\<open>sdk.Int\<close> sum does not overflow), \<^verbatim>\<open>BuildBatchTx\<close> returns none
  exactly when \<^verbatim>\<open>GetLastOutgoingBatchByTokenType\<close> finds a batch whose total fee is at least
  that total; otherwise it returns a batch of the token with the newly allocated nonce, whose
  total fee is the total \<^verbatim>\<open>GetBatchFeesByTokenType\<close> gave before the call, and which is
  stored under its key in the state returned.
\<close>

theorem BuildBatchTx_profitability:
  assumes "AverageEthereumBlockTime (params s) \<noteq> 0
         \<or> CosmosHeight (LastObservedEthereumBlockHeight s) = 0
         \<or> EthereumHeight (LastObservedEthereumBlockHeight s) = 0"
    and "GetBatchFeesByTokenType s T n = Inr fees"
  shows "((\<exists>s'. BuildBatchTx s T n = Inr (None, s'))
           \<longleftrightarrow> (\<exists>lastBatch. GetLastOutgoingBatchByTokenType s T = Some lastBatch
                  \<and> fees \<le> GetFees lastBatch))
       \<and> (\<not> (\<exists>lastBatch. GetLastOutgoingBatchByTokenType s T = Some lastBatch
                  \<and> fees \<le> GetFees lastBatch)
          \<longrightarrow> (\<exists>b s'. BuildBatchTx s T n = Inr (Some b, s')
                 \<and> GetFees b = fees
                 \<and> GetOutgoingTx s' (GetStoreIndex b) = Some b
                 \<and> TokenContract b = T \<and> Nonce b = counter s + 1
                 \<and> LastOutgoingBatchNonce s' = Some (Nonce b)))"
proof -
  obtain timeout where t: "getBatchTimeoutHeight s = Inr timeout"
    using getBatchTimeoutHeight_returns [OF assms(1)] by blast
  let ?g = "\<exists>lastBatch. GetLastOutgoingBatchByTokenType s T = Some lastBatch
                  \<and> fees \<le> GetFees lastBatch"
  let ?sel = "upto_stop 0 n (UnbatchedSendToEthereumsByContract s T)"
  let ?b = "\<lparr>Nonce = counter s + 1, Timeout = timeout, Transactions = ?sel,
             TokenContract = T, Height = BlockHeight s\<rparr>"
  let ?s2 = "s\<lparr>Unbatched := filter (\<lambda>y. ste_key y \<notin> ste_key ` set ?sel) (Unbatched s),
               LastOutgoingBatchNonce := Some (counter s + 1)\<rparr>"
  let ?s' = "EmitEvent (SetOutgoingTx ?s2 ?b) ''outgoing_batch'' (counter s + 1)"
  have yes: "?g \<Longrightarrow> BuildBatchTx s T n = Inr (None, s)"
    using BuildBatchTx_aborts [OF _ assms(2)] by blast
  have no: "BuildBatchTx s T n = Inr (Some ?b, ?s')" if ng: "\<not> ?g"
  proof (rule BuildBatchTx_builds [OF _ t])
    show "GetLastOutgoingBatchByTokenType s T = None
         \<or> (\<exists>lastBatch fees. GetLastOutgoingBatchByTokenType s T = Some lastBatch
               \<and> GetBatchFeesByTokenType s T n = Inr fees \<and> \<not> fees \<le> GetFees lastBatch)"
      using ng assms(2) by (cases "GetLastOutgoingBatchByTokenType s T") auto
  qed
  have f: "GetFees ?b = fees"
    using GetBatchFeesByTokenType_value [OF assms(2)] by (simp add: GetFees_def)
  have p: "GetOutgoingTx ?s' (GetStoreIndex ?b) = Some ?b"
    by (simp only: GetOutgoingTx_EmitEvent GetOutgoingTx_Set_same)
  have c: "LastOutgoingBatchNonce ?s' = Some (Nonce ?b)"
    by (simp add: EmitEvent_def SetOutgoingTx_def)
  have iff: "(\<exists>s'. BuildBatchTx s T n = Inr (None, s')) \<longleftrightarrow> ?g"
  proof (cases ?g)
    case True
    then show ?thesis using yes by simp
  next
    case False
    then show ?thesis using no [OF False] by simp
  qed
  have build: "\<not> ?g \<longrightarrow> (\<exists>b s'. BuildBatchTx s T n = Inr (Some b, s')
                 \<and> GetFees b = fees
                 \<and> GetOutgoingTx s' (GetStoreIndex b) = Some b
                 \<and> TokenContract b = T \<and> Nonce b = counter s + 1
                 \<and> LastOutgoingBatchNonce s' = Some (Nonce b))"
  proof
    assume ng: "\<not> ?g"
    have "BuildBatchTx s T n = Inr (Some ?b, ?s')
          \<and> GetFees ?b = fees
          \<and> GetOutgoingTx ?s' (GetStoreIndex ?b) = Some ?b
          \<and> TokenContract ?b = T \<and> Nonce ?b = counter s + 1
          \<and> LastOutgoingBatchNonce ?s' = Some (Nonce ?b)"
      using no [OF ng] f p c by simp
    then show "\<exists>b s'. BuildBatchTx s T n = Inr (Some b, s')
                 \<and> GetFees b = fees
                 \<and> GetOutgoingTx s' (GetStoreIndex b) = Some b
                 \<and> TokenContract b = T \<and> Nonce b = counter s + 1
                 \<and> LastOutgoingBatchNonce s' = Some (Nonce b)"
      by (intro exI [where x = ?b] exI [where x = ?s'])
  qed
  show ?thesis using iff build by (rule conjI)
qed

lemma pool_state_tokenA:
  "UnbatchedSendToEthereumsByContract pool_state tokenA
     = [mk_transfer 1 tokenA 100 10, mk_transfer 2 tokenA 100 7, mk_transfer 3 tokenA 100 3]"
  by (simp add: UnbatchedSendToEthereumsByContract_def pool_state_def example_state_def
      mk_transfer_def HexToAddress_def tokenA_def tokenB_def)

lemma pool_state_fees: "GetBatchFeesByTokenType pool_state tokenA 2 = Inr 17"
  by (simp add: GetBatchFeesByTokenType_sum pool_state_tokenA)
    (simp add: mk_transfer_def sdk_Int_Add_def maxBitLen_def)

lemma pool_state_no_batch: "GetLastOutgoingBatchByTokenType pool_state tokenA = None"
  by (simp add: GetLastOutgoingBatchByTokenType_def pool_state_def example_state_def)

theorem BuildBatchTx_profitability_witness:
  "AverageEthereumBlockTime (params pool_state) \<noteq> 0
   \<and> GetBatchFeesByTokenType pool_state tokenA 2 = Inr 17
   \<and> GetLastOutgoingBatchByTokenType pool_state tokenA = None
   \<and> (\<exists>b s'. BuildBatchTx pool_state tokenA 2 = Inr (Some b, s')
          \<and> GetFees b = 17 \<and> GetOutgoingTx s' (GetStoreIndex b) = Some b \<and> Nonce b = 1)"
proof -
  have h: "AverageEthereumBlockTime (params pool_state) \<noteq> 0"
    by (simp add: pool_state_def example_state_def)
  have h': "AverageEthereumBlockTime (params pool_state) \<noteq> 0
         \<or> CosmosHeight (LastObservedEthereumBlockHeight pool_state) = 0
         \<or> EthereumHeight (LastObservedEthereumBlockHeight pool_state) = 0"
    using h by simp
  have c: "counter pool_state = 0"
    by (simp add: counter_def pool_state_def example_state_def)
  have "\<exists>b s'. BuildBatchTx pool_state tokenA 2 = Inr (Some b, s')
                 \<and> GetFees b = 17
                 \<and> GetOutgoingTx s' (GetStoreIndex b) = Some b
                 \<and> TokenContract b = tokenA \<and> Nonce b = counter pool_state + 1
                 \<and> LastOutgoingBatchNonce s' = Some (Nonce b)"
    using BuildBatchTx_profitability [OF h' pool_state_fees, THEN conjunct2]
    by (simp add: pool_state_no_batch)
  then obtain b s' where "BuildBatchTx pool_state tokenA 2 = Inr (Some b, s')"
    "GetFees b = 17" "GetOutgoingTx s' (GetStoreIndex b) = Some b" "Nonce b = 1"
    using c by auto
  then have "\<exists>b s'. BuildBatchTx pool_state tokenA 2 = Inr (Some b, s')
          \<and> GetFees b = 17 \<and> GetOutgoingTx s' (GetStoreIndex b) = Some b \<and> Nonce b = 1"
    by blast
  then show ?thesis using h pool_state_fees pool_state_no_batch by (intro conjI)
qed

text \<open>
  Claim C2 as stated fails when \<^verbatim>\<open>BuildBatchTx\<close> panics. With a zero average Ethereum
  block time and nonzero observed heights no batch of the token is outstanding, so the guard
  does not abort, and the division of line 73 panics. With a batch of the token outstanding
  and four pending fees of \<open>2 ^ 254\<close> the addition of line 104, called from the guard of
  line 27, overflows. In both states \<^verbatim>\<open>BuildBatchTx\<close> returns neither none nor a batch.
\<close>

theorem BuildBatchTx_panics:
  "GetLastOutgoingBatchByTokenType pool_zero_block_time_state tokenA = None
   \<and> BuildBatchTx pool_zero_block_time_state tokenA 2 = Inl IntegerDivideByZero
   \<and> GetLastOutgoingBatchByTokenType huge_fees_state tokenA
       = Some \<lparr>Nonce = 1, Timeout = 3900, Transactions = [mk_transfer 1 tokenA 70 5],
               TokenContract = tokenA, Height = 150\<rparr>
   \<and> GetBatchFeesByTokenType huge_fees_state tokenA 100 = Inl IntOverflow
   \<and> BuildBatchTx huge_fees_state tokenA 100 = Inl IntOverflow"
proof -
  have a: "GetLastOutgoingBatchByTokenType pool_zero_block_time_state tokenA = None"
    by (simp add: GetLastOutgoingBatchByTokenType_def pool_zero_block_time_state_def
        pool_state_def example_state_def)
  have t: "getBatchTimeoutHeight pool_zero_block_time_state = Inl IntegerDivideByZero"
    by (simp add: getBatchTimeoutHeight_def pool_zero_block_time_state_def pool_state_def
        example_state_def)
  have z: "BuildBatchTx pool_zero_block_time_state tokenA 2 = Inl IntegerDivideByZero"
    by (simp add: BuildBatchTx_unfold a t)
  have l: "GetLastOutgoingBatchByTokenType huge_fees_state tokenA
       = Some \<lparr>Nonce = 1, Timeout = 3900, Transactions = [mk_transfer 1 tokenA 70 5],
               TokenContract = tokenA, Height = 150\<rparr>"
    by (simp add: GetLastOutgoingBatchByTokenType_def huge_fees_state_def example_state_def
        HexToAddress_def)
  have p: "UnbatchedSendToEthereumsByContract huge_fees_state tokenA
     = [mk_transfer 5 tokenA 100 (2 ^ 254), mk_transfer 4 tokenA 100 (2 ^ 254),
        mk_transfer 3 tokenA 100 (2 ^ 254), mk_transfer 2 tokenA 100 (2 ^ 254)]"
    by (simp add: UnbatchedSendToEthereumsByContract_def huge_fees_state_def example_state_def
        mk_transfer_def HexToAddress_def)
  have o: "GetBatchFeesByTokenType huge_fees_state tokenA 100 = Inl IntOverflow"
    by (simp add: GetBatchFeesByTokenType_sum p)
      (simp add: mk_transfer_def sdk_Int_Add_def maxBitLen_def)
  have b: "BuildBatchTx huge_fees_state tokenA 100 = Inl IntOverflow"
    by (simp add: BuildBatchTx_unfold l o)
  show ?thesis using a z l o b by (intro conjI)
qed

text \<open>
  Claim C8, as amended. When the token's pool is empty, the profitability guard does not
  abort and the timeout projection returns a height (it panics only on a zero average
  Ethereum block time with nonzero observed heights), \<^verbatim>\<open>BuildBatchTx\<close> returns a batch
  with no transactions, the next nonce, the projected timeout and the current height, stored
  under its key in the state returned, whose counter is the new nonce.
\<close>

theorem BuildBatchTx_empty_pool:
  assumes "UnbatchedSendToEthereumsByContract s T = []"
    and "\<not> (\<exists>lastBatch fees. GetLastOutgoingBatchByTokenType s T = Some lastBatch
              \<and> GetBatchFeesByTokenType s T n = Inr fees \<and> fees \<le> GetFees lastBatch)"
    and "getBatchTimeoutHeight s = Inr timeout"
  shows "\<exists>s'. BuildBatchTx s T n =
                 Inr (Some \<lparr>Nonce = counter s + 1, Timeout = timeout, Transactions = [],
                            TokenContract = T, Height = BlockHeight s\<rparr>, s')
             \<and> GetOutgoingTx s' (MakeBatchTxKey T (counter s + 1))
                 = Some \<lparr>Nonce = counter s + 1, Timeout = timeout, Transactions = [],
                         TokenContract = T, Height = BlockHeight s\<rparr>
             \<and> LastOutgoingBatchNonce s' = Some (counter s + 1)"
proof -
  let ?b = "\<lparr>Nonce = counter s + 1, Timeout = timeout, Transactions = [],
             TokenContract = T, Height = BlockHeight s\<rparr>"
  let ?s2 = "s\<lparr>Unbatched := filter (\<lambda>y. ste_key y \<notin> ste_key ` set []) (Unbatched s),
               LastOutgoingBatchNonce := Some (counter s + 1)\<rparr>"
  let ?s' = "EmitEvent (SetOutgoingTx ?s2 ?b) ''outgoing_batch'' (counter s + 1)"
  have k: "MakeBatchTxKey T (counter s + 1) = GetStoreIndex ?b"
    by (simp add: GetStoreIndex_def HexToAddress_def)
  have z: "GetBatchFeesByTokenType s T n = Inr 0"
    by (simp add: GetBatchFeesByTokenType_sum assms(1))
  have g: "GetLastOutgoingBatchByTokenType s T = None
         \<or> (\<exists>lastBatch fees. GetLastOutgoingBatchByTokenType s T = Some lastBatch
               \<and> GetBatchFeesByTokenType s T n = Inr fees \<and> \<not> fees \<le> GetFees lastBatch)"
    using assms(2) z by (cases "GetLastOutgoingBatchByTokenType s T") auto
  have r: "BuildBatchTx s T n = Inr (Some ?b, ?s')"
    using BuildBatchTx_builds [OF g assms(3)] by (simp only: assms(1) upto_stop.simps)
  have p: "GetOutgoingTx ?s' (MakeBatchTxKey T (counter s + 1)) = Some ?b"
    by (simp only: k GetOutgoingTx_EmitEvent GetOutgoingTx_Set_same)
  have c: "LastOutgoingBatchNonce ?s' = Some (counter s + 1)"
    by (simp add: EmitEvent_def SetOutgoingTx_def)
  have "BuildBatchTx s T n = Inr (Some ?b, ?s')
      \<and> GetOutgoingTx ?s' (MakeBatchTxKey T (counter s + 1)) = Some ?b
      \<and> LastOutgoingBatchNonce ?s' = Some (counter s + 1)"
    using r p c by (intro conjI)
  then show ?thesis by (rule exI [where x = ?s'])
qed

theorem BuildBatchTx_empty_pool_witness:
  "UnbatchedSendToEthereumsByContract example_state tokenA = []
   \<and> GetLastOutgoingBatchByTokenType example_state tokenA = None
   \<and> getBatchTimeoutHeight example_state = Inr 3900
   \<and> (\<exists>s'. BuildBatchTx example_state tokenA 100 =
              Inr (Some \<lparr>Nonce = 1, Timeout = 3900, Transactions = [],
                         TokenContract = tokenA, Height = 160\<rparr>, s')
          \<and> GetOutgoingTx s' (MakeBatchTxKey tokenA 1)
              = Some \<lparr>Nonce = 1, Timeout = 3900, Transactions = [],
                      TokenContract = tokenA, Height = 160\<rparr>)"
proof -
  have h1: "UnbatchedSendToEthereumsByContract example_state tokenA = []"
    by (simp add: UnbatchedSendToEthereumsByContract_def example_state_def)
  have n: "GetLastOutgoingBatchByTokenType example_state tokenA = None"
    by (simp add: GetLastOutgoingBatchByTokenType_def example_state_def)
  have h2: "\<not> (\<exists>lastBatch fees.
              GetLastOutgoingBatchByTokenType example_state tokenA = Some lastBatch
              \<and> GetBatchFeesByTokenType example_state tokenA 100 = Inr fees
              \<and> fees \<le> GetFees lastBatch)"
    by (simp add: n)
  have h3: "getBatchTimeoutHeight example_state = Inr 3900"
    by (simp add: getBatchTimeoutHeight_def example_state_def)
  have c: "counter example_state = 0" by (simp add: counter_def example_state_def)
  have b: "BlockHeight example_state = 160" by (simp add: example_state_def)
  show ?thesis
    using BuildBatchTx_empty_pool [OF h1 h2 h3] h1 n h3 by (simp add: c b) blast
qed

text \<open>
  Claim C8 as stated fails when the division of line 73 panics: with an empty pool, no
  outstanding batch, nonzero observed heights and a zero average Ethereum block time
  \<^verbatim>\<open>BuildBatchTx\<close> panics instead of returning the empty batch.
\<close>

theorem BuildBatchTx_empty_pool_divide_by_zero:
  "UnbatchedSendToEthereumsByContract empty_zero_block_time_state tokenA = []
   \<and> GetLastOutgoingBatchByTokenType empty_zero_block_time_state tokenA = None
   \<and> BuildBatchTx empty_zero_block_time_state tokenA 100 = Inl IntegerDivideByZero"
proof -
  have p: "UnbatchedSendToEthereumsByContract empty_zero_block_time_state tokenA = []"
    by (simp add: UnbatchedSendToEthereumsByContract_def empty_zero_block_time_state_def
        example_state_def)
  have a: "GetLastOutgoingBatchByTokenType empty_zero_block_time_state tokenA = None"
    by (simp add: GetLastOutgoingBatchByTokenType_def empty_zero_block_time_state_def
        example_state_def)
  have t: "getBatchTimeoutHeight empty_zero_block_time_state = Inl IntegerDivideByZero"
    by (simp add: getBatchTimeoutHeight_def empty_zero_block_time_state_def example_state_def)
  show ?thesis by (simp add: BuildBatchTx_unfold a t p)
qed

subsection \<open>Executing a batch\<close>

lemma BatchTxExecuted_no_record:
  assumes "GetOutgoingTx s (MakeBatchTxKey T k) = None"
  shows "BatchTxExecuted s T k = Inl NilPointerDereference"
  using assms by (cases "OutgoingBatches s") (simp_all add: BatchTxExecuted_def)

text \<open>With batches of one token only, the earlier batch is cancelled (its transfer is back
  in the pool) and the executed batch is deleted.\<close>

lemma BatchTxExecuted_one_token:
  "BatchTxExecuted one_token_state tokenA 3 =
     Inr (one_token_state
            \<lparr>OutgoingBatches := [], Unbatched := [mk_transfer 1 tokenA 20 1],
             Events := [\<lparr>EventType = ''outgoing_batch_canceled'',
                         AttributeContract = ''0xBridge'', AttributeBridgeChainID = 1,
                         AttributeNonce = 1\<rparr>]\<rparr>)"
  by (simp add: BatchTxExecuted_def one_token_state_def example_state_def tokenA_def
      GetOutgoingTx_def GetStoreIndex_def MakeBatchTxKey_def HexToAddress_def Hex_def
      CancelBatchTx_def mk_transfer_def SetUnbatchedSendToEthereum_def DeleteOutgoingTx_def
      EmitEvent_def)

text \<open>The two-token state is reached by two calls of \<^verbatim>\<open>BuildBatchTx\<close>: the first
  takes B's transfer into batch 1, the second takes the two highest fees of A (10 and 7)
  into batch 2 and leaves the transfer with fee 3 in the pool.\<close>

lemma BuildBatchTx_tokenB:
  "BuildBatchTx pool_state tokenB 100 =
     Inr (Some \<lparr>Nonce = 1, Timeout = 3900, Transactions = [mk_transfer 4 tokenB 60 9],
                TokenContract = tokenB, Height = 160\<rparr>,
          built_B_state)"
proof -
  have p: "UnbatchedSendToEthereumsByContract pool_state tokenB = [mk_transfer 4 tokenB 60 9]"
    by (simp add: UnbatchedSendToEthereumsByContract_def pool_state_def example_state_def
        mk_transfer_def HexToAddress_def tokenA_def tokenB_def)
  have n: "GetLastOutgoingBatchByTokenType pool_state tokenB = None"
    by (simp add: GetLastOutgoingBatchByTokenType_def pool_state_def example_state_def)
  have t: "getBatchTimeoutHeight pool_state = Inr 3900"
    by (simp add: getBatchTimeoutHeight_def pool_state_def example_state_def)
  have c: "counter pool_state = 0"
    by (simp add: counter_def pool_state_def example_state_def)
  show ?thesis
    by (simp add: BuildBatchTx_unfold n t c p)
       (simp add: built_B_state_def pool_state_def example_state_def SetOutgoingTx_def
          EmitEvent_def mk_transfer_def ste_key_def tokenA_def tokenB_def)
qed

lemma BuildBatchTx_tokenA:
  "BuildBatchTx built_B_state tokenA 2 =
     Inr (Some \<lparr>Nonce = 2, Timeout = 3900,
                Transactions = [mk_transfer 1 tokenA 100 10, mk_transfer 2 tokenA 100 7],
                TokenContract = tokenA, Height = 160\<rparr>,
          built_AB_state)"
proof -
  have p: "UnbatchedSendToEthereumsByContract built_B_state tokenA
     = [mk_transfer 1 tokenA 100 10, mk_transfer 2 tokenA 100 7, mk_transfer 3 tokenA 100 3]"
    by (simp add: UnbatchedSendToEthereumsByContract_def built_B_state_def pool_state_def
        example_state_def mk_transfer_def HexToAddress_def)
  have n: "GetLastOutgoingBatchByTokenType built_B_state tokenA = None"
    by (simp add: GetLastOutgoingBatchByTokenType_def built_B_state_def pool_state_def
        example_state_def HexToAddress_def tokenA_def tokenB_def)
  have t: "getBatchTimeoutHeight built_B_state = Inr 3900"
    by (simp add: getBatchTimeoutHeight_def built_B_state_def pool_state_def example_state_def)
  have c: "counter built_B_state = 1"
    by (simp add: counter_def built_B_state_def)
  show ?thesis
    by (simp add: BuildBatchTx_unfold n t c p)
       (simp add: built_AB_state_def built_B_state_def pool_state_def example_state_def
          SetOutgoingTx_def EmitEvent_def mk_transfer_def ste_key_def GetStoreIndex_def
          MakeBatchTxKey_def HexToAddress_def batch_key_less_def tokenA_def tokenB_def)
qed

text \<open>
  Claim C1, at the failing input. Batch 2 of token A is executed while batch 1 of token B is
  outstanding, in the state the two calls of \<^verbatim>\<open>BuildBatchTx\<close> above produce. Line 88
  compares the token of the executed batch, not of the visited one, with the argument, so
  the visit of B's batch calls \<^verbatim>\<open>CancelBatchTx\<close> for (A, 1), where nothing is stored, and
  the call panics: batch (A, 2) is not deleted.
\<close>

theorem BatchTxExecuted_other_token_panics:
  "BatchTxExecuted built_AB_state tokenA 2 = Inl NilPointerDereference"
  by (simp add: BatchTxExecuted_def built_AB_state_def built_B_state_def pool_state_def
      example_state_def tokenA_def tokenB_def GetOutgoingTx_def GetStoreIndex_def
      MakeBatchTxKey_def HexToAddress_def Hex_def CancelBatchTx_def mk_transfer_def)

text \<open>
  Claim C7, at the failing input. A batch is stored at (A, 3), and still
  \<^verbatim>\<open>BatchTxExecuted\<close> fails: the visit of batch 2 of token B cancels (A, 2), which does not
  exist. (That it fails when no batch is stored at the key is \<open>BatchTxExecuted_no_record\<close>.)
\<close>

theorem BatchTxExecuted_fails_with_record:
  "GetOutgoingTx three_batch_state (MakeBatchTxKey tokenA 3)
     = Some \<lparr>Nonce = 3, Timeout = 3900, Transactions = [mk_transfer 3 tokenA 70 5],
             TokenContract = tokenA, Height = 155\<rparr>
   \<and> BatchTxExecuted three_batch_state tokenA 3 = Inl NilPointerDereference"
  by (simp add: BatchTxExecuted_def three_batch_state_def example_state_def tokenA_def tokenB_def
      GetOutgoingTx_def GetStoreIndex_def MakeBatchTxKey_def HexToAddress_def Hex_def
      CancelBatchTx_def mk_transfer_def)

end
